theory Spec2Isabelle
  imports Main
begin

section \<open>JavaScript strings\<close>

text \<open>
  A JavaScript string is a sequence of UTF-16 code units; \<open>length\<close>, \<open>===\<close>,
  \<open>includes\<close>, \<open>trim\<close> and the regular expressions of the sources all work on code
  units. A string is therefore a list of code-unit values. \<open>js\<close> embeds an ASCII
  literal; literals beyond ASCII are written as explicit code-unit lists.
\<close>

type_synonym jsstring = "nat list"

definition js :: "string \<Rightarrow> jsstring" where
  "js s = map of_char s"

text \<open>\<open>WhiteSpace\<close> and \<open>LineTerminator\<close> code units, the set stripped by
  \<open>String.prototype.trim\<close>.\<close>

definition isWhiteSpace :: "nat \<Rightarrow> bool" where
  "isWhiteSpace c \<longleftrightarrow>
     c = 9 \<or> c = 10 \<or> c = 11 \<or> c = 12 \<or> c = 13 \<or> c = 32 \<or> c = 160 \<or> c = 5760 \<or>
     (8192 \<le> c \<and> c \<le> 8202) \<or> c = 8232 \<or> c = 8233 \<or> c = 8239 \<or> c = 8287 \<or>
     c = 12288 \<or> c = 65279"

definition trim :: "jsstring \<Rightarrow> jsstring" where
  "trim s = rev (dropWhile isWhiteSpace (rev (dropWhile isWhiteSpace s)))"

text \<open>
  \<open>String.prototype.toLowerCase\<close>. The Unicode lower-case mapping is written out for
  Basic Latin and for the two code units beyond ASCII whose lower-case form contains an
  ASCII unit (KELVIN SIGN U+212A, and U+0130 which becomes \<open>i\<close> followed by U+0307).
  Every other code unit is kept as it is: its real lower-case form contains no ASCII unit
  and no white space, so no comparison of a lower-cased, trimmed input with the
  lower-cased ASCII strings of the catalog is affected.
\<close>

definition toLowerUnit :: "nat \<Rightarrow> jsstring" where
  "toLowerUnit c =
     (if 65 \<le> c \<and> c \<le> 90 then [c + 32]
      else if c = 8490 then [107]
      else if c = 304 then [105, 775]
      else [c])"

definition toLowerCase :: "jsstring \<Rightarrow> jsstring" where
  "toLowerCase s = concat (map toLowerUnit s)"

text \<open>\<open>String.prototype.includes\<close>: \<open>t\<close> occurs in \<open>s\<close> at some index.\<close>

definition str_includes :: "jsstring \<Rightarrow> jsstring \<Rightarrow> bool" where
  "str_includes s t = list_ex (\<lambda>i. take (length t) (drop i s) = t) [0 ..< Suc (length s)]"

section \<open>Regular expressions of the sources\<close>

text \<open>
  The sources use two shapes of regular expression: \<open>/^word$/i\<close> (the banned patterns)
  and \<open>/(A|B|...)/\<close> (the model-name probe of the selection engine). A pattern is a
  sequence of terms: the assertions \<open>^\<close> and \<open>$\<close> (no \<open>m\<close> flag: start and end of the
  input), a literal code unit, and a group of literal alternatives.

  With the \<open>i\<close> flag and without the \<open>u\<close> flag two code units match when their
  \<open>Canonicalize\<close> images agree: the upper-case form of the unit, unless that form is
  longer than one unit or maps a unit beyond ASCII into ASCII. The upper-case table is
  written out for Basic Latin, for U+0131 and U+017F (whose upper-case forms are ASCII),
  and for the Cyrillic letters U+0430..U+045F and U+1C80..U+1C86; no other code unit has
  the upper-case form of a character of a banned pattern.
\<close>

definition toUpperUnit :: "nat \<Rightarrow> nat" where
  "toUpperUnit c =
     (if 97 \<le> c \<and> c \<le> 122 then c - 32
      else if c = 305 then 73
      else if c = 383 then 83
      else if 1072 \<le> c \<and> c \<le> 1103 then c - 32
      else if 1104 \<le> c \<and> c \<le> 1119 then c - 80
      else if c = 7296 then 1042
      else if c = 7297 then 1044
      else if c = 7298 then 1054
      else if c = 7299 then 1057
      else if c = 7300 then 1058
      else if c = 7301 then 1058
      else if c = 7302 then 1066
      else c)"

definition canonicalize :: "bool \<Rightarrow> nat \<Rightarrow> nat" where
  "canonicalize ic ch =
     (if \<not> ic then ch
      else let cu = toUpperUnit ch in
           if 128 \<le> ch \<and> cu < 128 then ch else cu)"

datatype re_term = AssertStart | AssertEnd | CharLit nat | Alternatives "jsstring list"

record regexp =
  terms :: "re_term list"
  ignoreCase :: bool

definition lit_at :: "bool \<Rightarrow> jsstring \<Rightarrow> jsstring \<Rightarrow> nat \<Rightarrow> bool" where
  "lit_at ic w s i \<longleftrightarrow>
     i + length w \<le> length s \<and>
     map (canonicalize ic) (take (length w) (drop i s)) = map (canonicalize ic) w"

fun match_from :: "bool \<Rightarrow> re_term list \<Rightarrow> jsstring \<Rightarrow> nat \<Rightarrow> bool" where
  "match_from ic [] s i = True"
| "match_from ic (AssertStart # ts) s i = (i = 0 \<and> match_from ic ts s i)"
| "match_from ic (AssertEnd # ts) s i = (i = length s \<and> match_from ic ts s i)"
| "match_from ic (CharLit c # ts) s i =
     (i < length s \<and> canonicalize ic (s ! i) = canonicalize ic c \<and> match_from ic ts s (Suc i))"
| "match_from ic (Alternatives ws # ts) s i =
     list_ex (\<lambda>w. lit_at ic w s i \<and> match_from ic ts s (i + length w)) ws"

text \<open>\<open>RegExp.prototype.test\<close> for a pattern without the \<open>g\<close> and \<open>y\<close> flags: a match
  is tried at every start index, from 0 to the length of the input.\<close>

definition regexp_test :: "regexp \<Rightarrow> jsstring \<Rightarrow> bool" where
  "regexp_test r s = list_ex (match_from (ignoreCase r) (terms r) s) [0 ..< Suc (length s)]"

definition anchored_word_i :: "jsstring \<Rightarrow> regexp" where
  "anchored_word_i w = \<lparr>terms = AssertStart # map CharLit w @ [AssertEnd], ignoreCase = True\<rparr>"

section \<open>Errors and the logging sink\<close>

text \<open>
  Values thrown by the sources: a reference to an identifier that the module does not
  bind, the \<open>Error\<close> of \<open>getDefaultModel\<close>, and a failure of a page primitive.
\<close>

datatype error = ReferenceError string | Error string | PageError

datatype level = INFO | WARN | ERROR

type_synonym log = "(level \<times> string) list"

text \<open>
  Modelled from the spec: the module \<open>./logging.js\<close> (\<open>logInfo\<close>, \<open>logWarn\<close>,
  \<open>logError\<close>) is not part of the sources at hand. The specification describes it as a
  write-only sink of leveled messages that never affects control flow or return values;
  a call appends the level and the (uninterpolated) message to the log.
\<close>

definition logging_write :: "level \<Rightarrow> string \<Rightarrow> log \<Rightarrow> log" where
  "logging_write l msg lg = lg @ [(l, msg)]"

text \<open>
  A call of a function by its identifier inside a module: the identifier must be bound
  in the module (declared there or imported), otherwise evaluating the reference throws
  a \<open>ReferenceError\<close>.
\<close>

definition call_log :: "string list \<Rightarrow> string \<Rightarrow> level \<Rightarrow> string \<Rightarrow> log \<Rightarrow> error + log" where
  "call_log bindings ident l msg lg =
     (if ident \<in> set bindings then Inr (logging_write l msg lg)
      else Inl (ReferenceError ident))"

section \<open>model-config.ts\<close>

text \<open>The identifiers bound at the top level of \<open>model-config.ts\<close>: its own declarations.
  The module has no import statement.\<close>

definition model_config_bindings :: "string list" where
  "model_config_bindings =
     [''AVAILABLE_MODELS'', ''BANNED_MODEL_PATTERNS'', ''isModelAllowed'',
      ''getModelConfig'', ''getDefaultModel'', ''getValidatedModel'']"

record ModelConfig =
  name :: jsstring
  displayName :: jsstring
  selectorText :: jsstring
  isDefault :: "bool option"

definition AVAILABLE_MODELS :: "ModelConfig list" where
  "AVAILABLE_MODELS =
    [\<lparr>name = js ''claude-sonnet-4.6'', displayName = js ''Claude Sonnet 4.6'',
      selectorText = js ''Claude Sonnet 4.6'', isDefault = Some True\<rparr>,
     \<lparr>name = js ''gemini-3.1-pro'', displayName = js ''Gemini 3.1 Pro'',
      selectorText = js ''Gemini 3.1 Pro'', isDefault = None\<rparr>,
     \<lparr>name = js ''gemini-3-flash'', displayName = js ''Gemini 3 Flash'',
      selectorText = js ''Gemini 3 Flash'', isDefault = None\<rparr>,
     \<lparr>name = js ''gpt-5.2'', displayName = js ''GPT-5.2'',
      selectorText = js ''GPT-5.2'', isDefault = None\<rparr>,
     \<lparr>name = js ''grok-4.1'', displayName = js ''Grok 4.1'',
      selectorText = js ''Grok 4.1'', isDefault = None\<rparr>,
     \<lparr>name = js ''kimi-k2.5'', displayName = js ''Kimi K2.5'',
      selectorText = js ''Kimi K2.5'', isDefault = None\<rparr>,
     \<lparr>name = js ''claude-opus-4.6'', displayName = js ''Claude Opus 4.6'',
      selectorText = js ''Claude Opus 4.6'', isDefault = None\<rparr>,
     \<lparr>name = js ''reasoning'', displayName = js ''Reasoning'',
      selectorText = js ''Reasoning'', isDefault = None\<rparr>,
     \<lparr>name = js ''sonar'', displayName = js ''Sonar'',
      selectorText = js ''Sonar'', isDefault = None\<rparr>]"

text \<open>The banned words \<open>model\<close>, \<open>sonar\<close>, the Russian and the Spanish/Portuguese word
  and the Japanese word (katakana), as code units.\<close>

definition banned_words :: "jsstring list" where
  "banned_words =
     [js ''model'', js ''sonar'', [1084, 1086, 1076, 1077, 1083, 1100],
      js ''modelo'', [12514, 12487, 12523]]"

definition BANNED_MODEL_PATTERNS :: "regexp list" where
  "BANNED_MODEL_PATTERNS = map anchored_word_i banned_words"

text \<open>The \<open>for\<close> loop of \<open>isModelAllowed\<close>: the first pattern that matches the trimmed
  name returns \<open>false\<close>.\<close>

fun isModelAllowed_loop :: "regexp list \<Rightarrow> jsstring \<Rightarrow> bool" where
  "isModelAllowed_loop [] modelName = True"
| "isModelAllowed_loop (pattern # rest) modelName =
     (if regexp_test pattern (trim modelName) then False
      else isModelAllowed_loop rest modelName)"

definition isModelAllowed :: "jsstring \<Rightarrow> bool" where
  "isModelAllowed modelName = isModelAllowed_loop BANNED_MODEL_PATTERNS modelName"

definition getModelConfig :: "jsstring \<Rightarrow> ModelConfig option" where
  "getModelConfig modelName =
     (let normalizedName = trim (toLowerCase modelName);
          model = find (\<lambda>m. toLowerCase (name m) = normalizedName) AVAILABLE_MODELS;
          model = (if model = None
                   then find (\<lambda>m. toLowerCase (displayName m) = normalizedName) AVAILABLE_MODELS
                   else model);
          model = (if model = None
                   then find (\<lambda>m. toLowerCase (selectorText m) = normalizedName) AVAILABLE_MODELS
                   else model)
      in model)"

definition getDefaultModel :: "error + ModelConfig" where
  "getDefaultModel =
     (case find (\<lambda>m. isDefault m = Some True) AVAILABLE_MODELS of
        None \<Rightarrow> Inl (Error ''No default model configured'')
      | Some defaultModel \<Rightarrow> Inr defaultModel)"

definition getDefaultModel_name :: "error + jsstring" where
  "getDefaultModel_name = (case getDefaultModel of Inl e \<Rightarrow> Inl e | Inr m \<Rightarrow> Inr (name m))"

text \<open>
  \<open>getValidatedModel\<close>. The argument is \<open>None\<close> for \<open>undefined\<close>; \<open>!modelName\<close> holds
  for \<open>undefined\<close> and for the empty string. The two fallback branches call \<open>logWarn\<close>
  before they return the default; the call is resolved in the bindings of this module.
  The log is threaded through, next to the result or the thrown error.
\<close>

definition getValidatedModel :: "jsstring option \<Rightarrow> log \<Rightarrow> (error + jsstring) \<times> log" where
  "getValidatedModel modelName lg =
     (case modelName of
        None \<Rightarrow> (getDefaultModel_name, lg)
      | Some raw \<Rightarrow>
          if raw = [] then (getDefaultModel_name, lg)
          else (case getModelConfig raw of
                  None \<Rightarrow>
                    (case call_log model_config_bindings ''logWarn'' WARN
                            ''Model not found, using default'' lg of
                       Inl e \<Rightarrow> (Inl e, lg)
                     | Inr lg' \<Rightarrow> (getDefaultModel_name, lg'))
                | Some modelConfig \<Rightarrow>
                    if \<not> isModelAllowed (name modelConfig) then
                      (case call_log model_config_bindings ''logWarn'' WARN
                              ''Model is not allowed, using default'' lg of
                         Inl e \<Rightarrow> (Inl e, lg)
                       | Inr lg' \<Rightarrow> (getDefaultModel_name, lg'))
                    else (Inr (name modelConfig), lg)))"

section \<open>The page and its primitives\<close>

text \<open>
  The page belongs to the browser controller; the sources reach it only through its
  primitives (\<open>page.$\<close>, \<open>page.$$\<close>, \<open>page.evaluate\<close>, \<open>page.click\<close>,
  \<open>page.waitForSelector\<close>, \<open>page.waitForTimeout\<close>, \<open>page.keyboard.press\<close>). A page is
  the list of its elements in document order. An element carries its tag name, its text
  content, its attributes and the indices of its proper ancestors, nearest first.
\<close>

record element =
  tagName :: string
  textContent :: jsstring
  attributes :: "(string \<times> jsstring) list"
  ancestors :: "nat list"

text \<open>
  A primitive call can succeed, throw before it has any effect, or throw after its effect
  took place (a rejected promise after the script ran). \<open>faults\<close> lists the outcomes of
  the coming primitive calls, one for each call; when it is used up every call succeeds.
  \<open>react\<close> is the reaction of the application to a click on an element, \<open>keyed\<close> its
  reaction to a key, \<open>resolve\<close> the element that a selector string denotes, if any:
  they belong to the page and its controller, whose selector engine is not part of the
  sources. The document changes in reaction to clicks and keys only. \<open>trace\<close>
  records the primitive calls and the clicks in the order in which they happen, and
  \<open>logged\<close> is the content of the logging sink.
\<close>

datatype outcome = Succeeds | Throws | ThrowsAfter

datatype event =
    Query string
  | Evaluate string
  | Sleep nat
  | ClickSelector string
  | Clicked nat
  | WaitForSelector string nat
  | WaitForHidden string nat
  | WaitForTimeout nat
  | KeyPress string
  | Threw

record world =
  dom :: "element list"
  react :: "nat \<Rightarrow> element list \<Rightarrow> element list"
  keyed :: "string \<Rightarrow> element list \<Rightarrow> element list"
  resolve :: "string \<Rightarrow> element list \<Rightarrow> nat option"
  faults :: "outcome list"
  trace :: "event list"
  logged :: log

type_synonym 'a io = "world \<Rightarrow> (error + 'a) \<times> world"

definition return_io :: "'a \<Rightarrow> 'a io" where
  "return_io x w = (Inr x, w)"

definition bind_io :: "'a io \<Rightarrow> ('a \<Rightarrow> 'b io) \<Rightarrow> 'b io" where
  "bind_io m k w = (case m w of (Inl e, w') \<Rightarrow> (Inl e, w') | (Inr x, w') \<Rightarrow> k x w')"

text \<open>\<open>try { body } catch (error) { handler }\<close>: the changes made before the throw stay.\<close>

definition try_catch :: "'a io \<Rightarrow> (error \<Rightarrow> 'a io) \<Rightarrow> 'a io" where
  "try_catch body handler w =
     (case body w of (Inl e, w') \<Rightarrow> handler e w' | (Inr x, w') \<Rightarrow> (Inr x, w'))"

definition log_io :: "string list \<Rightarrow> string \<Rightarrow> level \<Rightarrow> string \<Rightarrow> unit io" where
  "log_io bindings ident l msg w =
     (case call_log bindings ident l msg (logged w) of
        Inl e \<Rightarrow> (Inl e, w)
      | Inr lg \<Rightarrow> (Inr (), w\<lparr>logged := lg\<rparr>))"

definition next_outcome :: "world \<Rightarrow> outcome \<times> world" where
  "next_outcome w = (case faults w of [] \<Rightarrow> (Succeeds, w) | f # fs \<Rightarrow> (f, w\<lparr>faults := fs\<rparr>))"

definition primitive :: "event \<Rightarrow> 'a io \<Rightarrow> 'a io" where
  "primitive ev act w =
     (case next_outcome w of (f, w1) \<Rightarrow>
        let w2 = w1\<lparr>trace := trace w1 @ [ev]\<rparr> in
        (case f of
           Succeeds \<Rightarrow> act w2
         | Throws \<Rightarrow> (Inl PageError, w2\<lparr>trace := trace w2 @ [Threw]\<rparr>)
         | ThrowsAfter \<Rightarrow>
             (case act w2 of (r, w3) \<Rightarrow> (Inl PageError, w3\<lparr>trace := trace w3 @ [Threw]\<rparr>))))"

definition click_element :: "nat \<Rightarrow> world \<Rightarrow> world" where
  "click_element i w = w\<lparr>dom := react w i (dom w), trace := trace w @ [Clicked i]\<rparr>"

text \<open>\<open>page.evaluate(script)\<close>: the script runs inside the page and may click.\<close>

definition page_evaluate :: "string \<Rightarrow> (world \<Rightarrow> 'a \<times> world) \<Rightarrow> 'a io" where
  "page_evaluate script_name script =
     primitive (Evaluate script_name) (\<lambda>w. case script w of (x, w') \<Rightarrow> (Inr x, w'))"

text \<open>\<open>page.evaluate(() => new Promise(r => setTimeout(r, ms)))\<close>.\<close>

definition page_sleep :: "nat \<Rightarrow> unit io" where
  "page_sleep ms = primitive (Sleep ms) (return_io ())"

text \<open>\<open>page.$(selector)\<close>: the handle of the selected element, or \<open>null\<close>.\<close>

definition page_query :: "string \<Rightarrow> nat option io" where
  "page_query selector = primitive (Query selector) (\<lambda>w. (Inr (resolve w selector (dom w)), w))"

text \<open>\<open>page.click(selector)\<close> throws when the selector denotes no element.\<close>

definition page_click :: "string \<Rightarrow> unit io" where
  "page_click selector =
     primitive (ClickSelector selector)
       (\<lambda>w. case resolve w selector (dom w) of
               None \<Rightarrow> (Inl PageError, w\<lparr>trace := trace w @ [Threw]\<rparr>)
             | Some i \<Rightarrow> (Inr (), click_element i w))"

text \<open>\<open>page.waitForSelector(selector, { timeout })\<close> throws when the time is over and the
  selector denotes no element; with \<open>hidden: true\<close> it waits for the selector to denote
  no element any more.\<close>

definition page_waitForSelector :: "string \<Rightarrow> nat \<Rightarrow> unit io" where
  "page_waitForSelector selector timeout =
     primitive (WaitForSelector selector timeout)
       (\<lambda>w. case resolve w selector (dom w) of
               None \<Rightarrow> (Inl PageError, w\<lparr>trace := trace w @ [Threw]\<rparr>)
             | Some i \<Rightarrow> (Inr (), w))"

definition page_waitForSelector_hidden :: "string \<Rightarrow> nat \<Rightarrow> unit io" where
  "page_waitForSelector_hidden selector timeout =
     primitive (WaitForHidden selector timeout)
       (\<lambda>w. case resolve w selector (dom w) of
               None \<Rightarrow> (Inr (), w)
             | Some i \<Rightarrow> (Inl PageError, w\<lparr>trace := trace w @ [Threw]\<rparr>))"

text \<open>\<open>page.waitForTimeout(ms)\<close> and \<open>page.keyboard.press(key)\<close>.\<close>

definition page_waitForTimeout :: "nat \<Rightarrow> unit io" where
  "page_waitForTimeout ms = primitive (WaitForTimeout ms) (return_io ())"

definition page_keyboard_press :: "string \<Rightarrow> unit io" where
  "page_keyboard_press key =
     primitive (KeyPress key) (\<lambda>w. (Inr (), w\<lparr>dom := keyed w key (dom w)\<rparr>))"

text \<open>\<open>document.querySelectorAll('button')\<close>, as indices into the document.\<close>

definition button_indices :: "element list \<Rightarrow> nat list" where
  "button_indices d = filter (\<lambda>i. tagName (d ! i) = ''BUTTON'') [0 ..< length d]"

text \<open>\<open>page.$$('button')\<close>: the handles of all buttons.\<close>

definition page_query_buttons :: "nat list io" where
  "page_query_buttons = primitive (Query ''button'') (\<lambda>w. (Inr (button_indices (dom w)), w))"

text \<open>\<open>page.evaluate(el => el.textContent?.trim(), handle)\<close>; a handle whose element is
  gone makes the call throw.\<close>

definition page_handle_text :: "nat \<Rightarrow> jsstring io" where
  "page_handle_text h =
     primitive (Evaluate ''el.textContent.trim'')
       (\<lambda>w. if h < length (dom w) then (Inr (trim (textContent (dom w ! h))), w)
             else (Inl PageError, w\<lparr>trace := trace w @ [Threw]\<rparr>))"

definition getAttribute :: "element \<Rightarrow> string \<Rightarrow> jsstring option" where
  "getAttribute e a = map_of (attributes e) a"

text \<open>\<open>el.closest('[role="menuitem"]')\<close>: the element itself or its nearest ancestor
  with that role.\<close>

text \<open>\<open>document.querySelectorAll('[role="menuitem"]')\<close>, as indices into the document.\<close>

definition menuitem_indices :: "element list \<Rightarrow> nat list" where
  "menuitem_indices d =
     filter (\<lambda>i. getAttribute (d ! i) ''role'' = Some (js ''menuitem'')) [0 ..< length d]"

definition closest_menuitem :: "element list \<Rightarrow> nat \<Rightarrow> nat option" where
  "closest_menuitem d i =
     find (\<lambda>j. j < length d \<and> getAttribute (d ! j) ''role'' = Some (js ''menuitem''))
       (i # ancestors (d ! i))"

text \<open>The two model-name probes: \<open>/(Claude|Gemini|Sonar|GPT|Grok|More)/\<close> and
  \<open>/(Claude|Gemini|Sonar|GPT|Grok|Kimi)/\<close>.\<close>

definition probe_with_More :: regexp where
  "probe_with_More =
     \<lparr>terms = [Alternatives [js ''Claude'', js ''Gemini'', js ''Sonar'', js ''GPT'',
                             js ''Grok'', js ''More'']],
      ignoreCase = False\<rparr>"

definition probe_with_Kimi :: regexp where
  "probe_with_Kimi =
     \<lparr>terms = [Alternatives [js ''Claude'', js ''Gemini'', js ''Sonar'', js ''GPT'',
                             js ''Grok'', js ''Kimi'']],
      ignoreCase = False\<rparr>"

section \<open>model-reasoning-toggle.ts\<close>

definition reasoning_toggle_bindings :: "string list" where
  "reasoning_toggle_bindings =
     [''logInfo'', ''logWarn'', ''REASONING_TOGGLE_SELECTOR'', ''REASONING_MENU_ITEM_SELECTOR'',
      ''isReasoningToggleAvailable'', ''enableReasoningMode'',
      ''getReasoningSelectorForVerification'']"

definition REASONING_TOGGLE_SELECTOR :: string where
  "REASONING_TOGGLE_SELECTOR = ''button[value=\"on\"][role=\"switch\"]''"

definition isReasoningToggleAvailable_try :: "bool io" where
  "isReasoningToggleAvailable_try =
     bind_io (page_query REASONING_TOGGLE_SELECTOR) (\<lambda>toggle.
     return_io (toggle \<noteq> None))"

definition isReasoningToggleAvailable :: "bool io" where
  "isReasoningToggleAvailable =
     try_catch isReasoningToggleAvailable_try
       (\<lambda>error.
        bind_io (log_io reasoning_toggle_bindings ''logWarn'' WARN
                   ''Error checking reasoning toggle availability:'') (\<lambda>_.
        return_io False))"

text \<open>The script of \<open>enableReasoningMode\<close>:
  \<open>document.querySelector(selector)?.getAttribute('aria-checked') === 'true'\<close>.\<close>

definition toggle_is_checked :: "world \<Rightarrow> bool" where
  "toggle_is_checked w =
     (case resolve w REASONING_TOGGLE_SELECTOR (dom w) of
        None \<Rightarrow> False
      | Some i \<Rightarrow> getAttribute (dom w ! i) ''aria-checked'' = Some (js ''true''))"

definition enableReasoningMode_try :: "bool io" where
  "enableReasoningMode_try =
     bind_io (log_io reasoning_toggle_bindings ''logInfo'' INFO
                ''Enabling reasoning mode...'') (\<lambda>_.
     bind_io (page_evaluate ''aria-checked'' (\<lambda>w. (toggle_is_checked w, w))) (\<lambda>isEnabled.
     if isEnabled then
       bind_io (log_io reasoning_toggle_bindings ''logInfo'' INFO
                  ''Reasoning mode is already enabled'') (\<lambda>_.
       return_io True)
     else
       bind_io (page_click REASONING_TOGGLE_SELECTOR) (\<lambda>_.
       bind_io (log_io reasoning_toggle_bindings ''logInfo'' INFO
                  ''Reasoning mode enabled successfully'') (\<lambda>_.
       bind_io (page_sleep 500) (\<lambda>_.
       return_io True)))))"

definition enableReasoningMode :: "bool io" where
  "enableReasoningMode =
     try_catch enableReasoningMode_try
       (\<lambda>error.
        bind_io (log_io reasoning_toggle_bindings ''logWarn'' WARN
                   ''Failed to enable reasoning mode:'') (\<lambda>_.
        return_io False))"

section \<open>model-selection.ts, first part (enhanced version)\<close>

text \<open>The file \<open>model-selection.ts\<close> holds three module texts. The first one declares
  \<open>isModelSelectionAvailable\<close>, \<open>getCurrentlySelectedModel\<close>, \<open>setModel\<close> and
  \<open>selectModel\<close>; it imports the three logging functions.\<close>

definition model_selection_bindings :: "string list" where
  "model_selection_bindings =
     [''logInfo'', ''logError'', ''logWarn'', ''getValidatedModel'',
      ''isReasoningToggleAvailable'', ''enableReasoningMode'', ''SELECTORS'', ''TIMEOUT'',
      ''isModelSelectionAvailable'', ''getCurrentlySelectedModel'', ''setModel'',
      ''selectModel'']"

definition logInfo :: "string \<Rightarrow> unit io" where
  "logInfo msg = log_io model_selection_bindings ''logInfo'' INFO msg"

definition logWarn :: "string \<Rightarrow> unit io" where
  "logWarn msg = log_io model_selection_bindings ''logWarn'' WARN msg"

fun isModelSelectionAvailable_loop :: "nat list \<Rightarrow> bool io" where
  "isModelSelectionAvailable_loop [] w = return_io False w"
| "isModelSelectionAvailable_loop (button # rest) w =
     bind_io (page_handle_text button) (\<lambda>text.
       if text \<noteq> [] \<and> regexp_test probe_with_More text then
         bind_io (logInfo ''Model selection available'') (\<lambda>_. return_io True)
       else isModelSelectionAvailable_loop rest) w"

definition isModelSelectionAvailable_try :: "bool io" where
  "isModelSelectionAvailable_try =
     bind_io page_query_buttons (\<lambda>buttons.
     bind_io (isModelSelectionAvailable_loop buttons) (\<lambda>found.
     if found then return_io True
     else bind_io (logWarn ''Model selection UI not found'') (\<lambda>_. return_io False)))"

definition isModelSelectionAvailable :: "bool io" where
  "isModelSelectionAvailable =
     try_catch isModelSelectionAvailable_try
       (\<lambda>error.
        bind_io (logWarn ''Error checking availability:'') (\<lambda>_. return_io False))"

text \<open>The script of \<open>getCurrentlySelectedModel\<close>: the trimmed text of the first button
  that names a model and is not the \<open>More\<close> button, or \<open>null\<close>.\<close>

definition current_model_script :: "element list \<Rightarrow> jsstring option" where
  "current_model_script d =
     find (\<lambda>text. text \<noteq> [] \<and> regexp_test probe_with_Kimi text \<and> text \<noteq> js ''More'')
       (map (\<lambda>i. trim (textContent (d ! i))) (button_indices d))"

definition getCurrentlySelectedModel_try :: "jsstring option io" where
  "getCurrentlySelectedModel_try =
     bind_io (page_evaluate ''current model'' (\<lambda>w. (current_model_script (dom w), w)))
       (\<lambda>modelName.
     bind_io (if modelName \<noteq> None \<and> modelName \<noteq> Some []
              then logInfo ''Current model'' else return_io ()) (\<lambda>_.
     return_io modelName))"

definition getCurrentlySelectedModel :: "jsstring option io" where
  "getCurrentlySelectedModel =
     try_catch getCurrentlySelectedModel_try
       (\<lambda>error.
        bind_io (logWarn ''Error getting current model:'') (\<lambda>_. return_io None))"

text \<open>The two further scripts of \<open>setModel\<close>: is there a button whose trimmed text is
  \<open>More\<close>; and click the first button whose trimmed text includes the name.\<close>

definition has_More_script :: "element list \<Rightarrow> bool" where
  "has_More_script d =
     list_ex (\<lambda>i. trim (textContent (d ! i)) = js ''More'') (button_indices d)"

definition click_button_script :: "jsstring \<Rightarrow> world \<Rightarrow> bool \<times> world" where
  "click_button_script nm w =
     (case find (\<lambda>i. let text = trim (textContent (dom w ! i))
                     in text \<noteq> [] \<and> str_includes text nm)
             (button_indices (dom w)) of
        None \<Rightarrow> (False, w)
      | Some i \<Rightarrow> (True, click_element i w))"

definition setModel_try :: "jsstring \<Rightarrow> bool io" where
  "setModel_try modelDisplayName =
     bind_io (logInfo ''Setting model to'') (\<lambda>_.
     bind_io getCurrentlySelectedModel (\<lambda>current.
     if (case current of None \<Rightarrow> False
         | Some c \<Rightarrow> c \<noteq> [] \<and> str_includes c modelDisplayName) then
       bind_io (logInfo ''Model already selected'') (\<lambda>_. return_io True)
     else
       bind_io (page_evaluate ''has More'' (\<lambda>w. (has_More_script (dom w), w))) (\<lambda>hasMore.
       bind_io (if hasMore then
                  bind_io (logInfo ''Found More button, clicking to expand model list'') (\<lambda>_.
                  bind_io (page_click ''button:has-text(\"More\")'') (\<lambda>_.
                  page_sleep 1000))
                else return_io ()) (\<lambda>_.
       bind_io (page_evaluate ''click model button'' (click_button_script modelDisplayName))
         (\<lambda>foundModelButton.
       if foundModelButton then
         bind_io (logInfo ''Successfully clicked model'') (\<lambda>_.
         bind_io (page_sleep 1000) (\<lambda>_.
         return_io True))
       else
         bind_io (logWarn ''Could not find model in UI'') (\<lambda>_. return_io False))))))"

definition setModel :: "jsstring \<Rightarrow> bool io" where
  "setModel modelDisplayName =
     try_catch (setModel_try modelDisplayName)
       (\<lambda>error.
        bind_io (logWarn ''Failed to set model'') (\<lambda>_. return_io False))"

text \<open>\<open>getValidatedModel\<close> as called from the selection modules: it works on the
  logging sink only.\<close>

definition validated_io :: "jsstring option \<Rightarrow> jsstring io" where
  "validated_io m w = (case getValidatedModel m (logged w) of (r, lg) \<Rightarrow> (r, w\<lparr>logged := lg\<rparr>))"

definition selectModel :: "jsstring \<Rightarrow> jsstring io" where
  "selectModel model =
     bind_io (validated_io (Some model)) (\<lambda>validatedModel.
     bind_io isModelSelectionAvailable (\<lambda>available.
     if \<not> available then
       bind_io (logWarn ''Model selection not available, using validated model'') (\<lambda>_.
       return_io validatedModel)
     else
       bind_io (setModel validatedModel) (\<lambda>modelSet.
       bind_io (if \<not> modelSet then logWarn ''Could not set model via UI, falling back''
                else return_io ()) (\<lambda>_.
       return_io validatedModel))))"

section \<open>model-selection.ts, second part (dropdown version)\<close>

text \<open>The second module text opens the model menu through the button that carries
  \<open>aria-haspopup\<close>. It declares its own \<open>isModelSelectionAvailable\<close>,
  \<open>getCurrentlySelectedModel\<close> and \<open>setModel\<close> (written with the suffix \<open>_dropdown\<close>
  here), and \<open>openModelDropdown\<close>, \<open>closeModelDropdown\<close>, \<open>selectModelFromDropdown\<close> and
  \<open>getAvailableModelsFromDropdown\<close>; it imports the three logging functions, and
  \<open>AVAILABLE_MODELS\<close> and \<open>getModelConfig\<close> from \<open>model-config.ts\<close>.\<close>

definition model_selection_dropdown_bindings :: "string list" where
  "model_selection_dropdown_bindings =
     [''logInfo'', ''logError'', ''logWarn'', ''AVAILABLE_MODELS'', ''getModelConfig'',
      ''MODEL_BUTTON_SELECTOR'', ''MODEL_DROPDOWN_SELECTOR'', ''MODEL_OPTION_SELECTOR'',
      ''MODEL_SELECTION_TIMEOUT'', ''isModelSelectionAvailable'', ''getCurrentlySelectedModel'',
      ''openModelDropdown'', ''closeModelDropdown'', ''selectModelFromDropdown'',
      ''getAvailableModelsFromDropdown'', ''setModel'']"

definition logInfo_dropdown :: "string \<Rightarrow> unit io" where
  "logInfo_dropdown msg = log_io model_selection_dropdown_bindings ''logInfo'' INFO msg"

definition logWarn_dropdown :: "string \<Rightarrow> unit io" where
  "logWarn_dropdown msg = log_io model_selection_dropdown_bindings ''logWarn'' WARN msg"

definition logError_dropdown :: "string \<Rightarrow> unit io" where
  "logError_dropdown msg = log_io model_selection_dropdown_bindings ''logError'' ERROR msg"

definition MODEL_BUTTON_SELECTOR :: string where
  "MODEL_BUTTON_SELECTOR = ''button[aria-haspopup=\"menu\"][data-state=\"closed\"]''"

definition MODEL_DROPDOWN_SELECTOR :: string where
  "MODEL_DROPDOWN_SELECTOR = ''[role=\"menu\"][data-placement]''"

definition MODEL_SELECTION_TIMEOUT :: nat where
  "MODEL_SELECTION_TIMEOUT = 10000"

definition isModelSelectionAvailable_dropdown_try :: "bool io" where
  "isModelSelectionAvailable_dropdown_try =
     bind_io (page_query MODEL_BUTTON_SELECTOR) (\<lambda>button.
     return_io (button \<noteq> None))"

definition isModelSelectionAvailable_dropdown :: "bool io" where
  "isModelSelectionAvailable_dropdown =
     try_catch isModelSelectionAvailable_dropdown_try
       (\<lambda>error.
        bind_io (logWarn_dropdown ''Error checking model selection availability:'') (\<lambda>_.
        return_io False))"

text \<open>The script of \<open>getCurrentlySelectedModel\<close>: \<open>null\<close> without the model button,
  otherwise \<open>textContent || ariaLabel || null\<close>, of the trimmed text and the
  \<open>aria-label\<close> attribute of the button.\<close>

definition model_button_script :: "world \<Rightarrow> jsstring option" where
  "model_button_script w =
     (case resolve w MODEL_BUTTON_SELECTOR (dom w) of
        None \<Rightarrow> None
      | Some button \<Rightarrow>
          let text = trim (textContent (dom w ! button));
              ariaLabel = getAttribute (dom w ! button) ''aria-label''
          in if text \<noteq> [] then Some text
             else if ariaLabel \<noteq> None \<and> ariaLabel \<noteq> Some [] then ariaLabel
             else None)"

definition getCurrentlySelectedModel_dropdown_try :: "jsstring option io" where
  "getCurrentlySelectedModel_dropdown_try =
     bind_io (page_evaluate ''model button text'' (\<lambda>w. (model_button_script w, w)))
       (\<lambda>modelName.
     return_io modelName)"

definition getCurrentlySelectedModel_dropdown :: "jsstring option io" where
  "getCurrentlySelectedModel_dropdown =
     try_catch getCurrentlySelectedModel_dropdown_try
       (\<lambda>error.
        bind_io (logWarn_dropdown ''Error getting currently selected model:'') (\<lambda>_.
        return_io None))"

definition openModelDropdown_try :: "bool io" where
  "openModelDropdown_try =
     bind_io (logInfo_dropdown ''Opening model selection dropdown...'') (\<lambda>_.
     bind_io (page_waitForSelector MODEL_BUTTON_SELECTOR MODEL_SELECTION_TIMEOUT) (\<lambda>_.
     bind_io (page_click MODEL_BUTTON_SELECTOR) (\<lambda>_.
     bind_io (page_waitForSelector MODEL_DROPDOWN_SELECTOR 2000) (\<lambda>_.
     bind_io (logInfo_dropdown ''Model dropdown opened successfully'') (\<lambda>_.
     return_io True)))))"

definition openModelDropdown :: "bool io" where
  "openModelDropdown =
     try_catch openModelDropdown_try
       (\<lambda>error.
        bind_io (logError_dropdown ''Failed to open model dropdown:'') (\<lambda>_.
        return_io False))"

text \<open>\<open>closeModelDropdown\<close>: the rejection of the wait is swallowed by the handler
  \<open>.catch(() => {})\<close> of its promise.\<close>

definition closeModelDropdown_try :: "bool io" where
  "closeModelDropdown_try =
     bind_io (page_keyboard_press ''Escape'') (\<lambda>_.
     bind_io (try_catch (page_waitForSelector_hidden MODEL_DROPDOWN_SELECTOR 2000)
                (\<lambda>error. return_io ())) (\<lambda>_.
     return_io True))"

definition closeModelDropdown :: "bool io" where
  "closeModelDropdown =
     try_catch closeModelDropdown_try
       (\<lambda>error.
        bind_io (logWarn_dropdown ''Error closing model dropdown:'') (\<lambda>_.
        return_io False))"

text \<open>The script of \<open>selectModelFromDropdown\<close>: click the first menu item (selector
  \<open>MODEL_OPTION_SELECTOR\<close>, \<open>[role="menuitem"]\<close>) whose trimmed text includes the
  selector label.\<close>

definition select_option_script :: "jsstring \<Rightarrow> world \<Rightarrow> bool \<times> world" where
  "select_option_script targetText w =
     (case find (\<lambda>option. str_includes (trim (textContent (dom w ! option))) targetText)
             (menuitem_indices (dom w)) of
        None \<Rightarrow> (False, w)
      | Some targetOption \<Rightarrow> (True, click_element targetOption w))"

definition selectModelFromDropdown_try :: "ModelConfig \<Rightarrow> bool io" where
  "selectModelFromDropdown_try modelConfig =
     bind_io (logInfo_dropdown ''Selecting model'') (\<lambda>_.
     bind_io (page_waitForSelector MODEL_DROPDOWN_SELECTOR MODEL_SELECTION_TIMEOUT) (\<lambda>_.
     bind_io (page_evaluate ''click model option''
                (select_option_script (selectorText modelConfig))) (\<lambda>modelSelected.
     if \<not> modelSelected then
       bind_io (logError_dropdown ''Model not found in dropdown'') (\<lambda>_. return_io False)
     else
       bind_io (page_waitForTimeout 500) (\<lambda>_.
       bind_io (logInfo_dropdown ''Model selected successfully'') (\<lambda>_.
       return_io True)))))"

definition selectModelFromDropdown :: "ModelConfig \<Rightarrow> bool io" where
  "selectModelFromDropdown modelConfig =
     try_catch (selectModelFromDropdown_try modelConfig)
       (\<lambda>error.
        bind_io (logError_dropdown ''Error selecting model from dropdown:'') (\<lambda>_.
        return_io False))"

text \<open>The script of \<open>getAvailableModelsFromDropdown\<close>: the non-empty trimmed texts of
  the menu items.\<close>

definition option_texts_script :: "element list \<Rightarrow> jsstring list" where
  "option_texts_script d =
     filter (\<lambda>text. text \<noteq> []) (map (\<lambda>option. trim (textContent (d ! option))) (menuitem_indices d))"

definition getAvailableModelsFromDropdown_try :: "jsstring list io" where
  "getAvailableModelsFromDropdown_try =
     bind_io (page_query MODEL_DROPDOWN_SELECTOR) (\<lambda>dropdown.
     let isDropdownOpen = (dropdown \<noteq> None) in
     bind_io (if \<not> isDropdownOpen then
                bind_io openModelDropdown (\<lambda>_. page_waitForTimeout 500)
              else return_io ()) (\<lambda>_.
     bind_io (page_evaluate ''option texts'' (\<lambda>w. (option_texts_script (dom w), w))) (\<lambda>models.
     bind_io (if \<not> isDropdownOpen then bind_io closeModelDropdown (\<lambda>_. return_io ())
              else return_io ()) (\<lambda>_.
     return_io models))))"

definition getAvailableModelsFromDropdown :: "jsstring list io" where
  "getAvailableModelsFromDropdown =
     try_catch getAvailableModelsFromDropdown_try
       (\<lambda>error.
        bind_io (logWarn_dropdown ''Error getting available models from dropdown:'') (\<lambda>_.
        return_io []))"

definition setModel_dropdown_try :: "jsstring \<Rightarrow> bool io" where
  "setModel_dropdown_try modelName =
     bind_io (logInfo_dropdown ''Setting model to'') (\<lambda>_.
     case getModelConfig modelName of
       None \<Rightarrow>
         bind_io (logError_dropdown ''Model configuration not found for'') (\<lambda>_.
         return_io False)
     | Some modelConfig \<Rightarrow>
         bind_io getCurrentlySelectedModel_dropdown (\<lambda>currentModel.
         if (case currentModel of None \<Rightarrow> False
             | Some c \<Rightarrow> c \<noteq> [] \<and> str_includes c (displayName modelConfig)) then
           bind_io (logInfo_dropdown ''Model is already selected'') (\<lambda>_. return_io True)
         else
           bind_io openModelDropdown (\<lambda>dropdownOpened.
           if \<not> dropdownOpened then
             bind_io (logError_dropdown ''Failed to open model dropdown'') (\<lambda>_.
             return_io False)
           else
             bind_io (selectModelFromDropdown modelConfig) (\<lambda>modelSelected.
             bind_io closeModelDropdown (\<lambda>_.
             return_io modelSelected)))))"

definition setModel_dropdown :: "jsstring \<Rightarrow> bool io" where
  "setModel_dropdown modelName =
     try_catch (setModel_dropdown_try modelName)
       (\<lambda>error.
        bind_io (logError_dropdown ''Error setting model:'') (\<lambda>_. return_io False))"

section \<open>model-selection.ts, third part (final version)\<close>

text \<open>The third module text declares its own \<open>isModelSelectionAvailable\<close>, and
  \<open>setModelFinal\<close> and \<open>selectModelFinal\<close>; it imports \<open>logInfo\<close> and \<open>logWarn\<close>.\<close>

definition model_selection_final_bindings :: "string list" where
  "model_selection_final_bindings =
     [''logInfo'', ''logWarn'', ''getValidatedModel'', ''getModelConfig'',
      ''isReasoningToggleAvailable'', ''enableReasoningMode'',
      ''isModelSelectionAvailable'', ''setModelFinal'', ''selectModelFinal'']"

definition logInfo_final :: "string \<Rightarrow> unit io" where
  "logInfo_final msg = log_io model_selection_final_bindings ''logInfo'' INFO msg"

definition logWarn_final :: "string \<Rightarrow> unit io" where
  "logWarn_final msg = log_io model_selection_final_bindings ''logWarn'' WARN msg"

fun isModelSelectionAvailable_final_loop :: "nat list \<Rightarrow> bool io" where
  "isModelSelectionAvailable_final_loop [] w = return_io False w"
| "isModelSelectionAvailable_final_loop (button # rest) w =
     bind_io (page_handle_text button) (\<lambda>text.
       if text \<noteq> [] \<and> regexp_test probe_with_More text then return_io True
       else isModelSelectionAvailable_final_loop rest) w"

definition isModelSelectionAvailable_final_try :: "bool io" where
  "isModelSelectionAvailable_final_try =
     bind_io page_query_buttons (\<lambda>buttons. isModelSelectionAvailable_final_loop buttons)"

definition isModelSelectionAvailable_final :: "bool io" where
  "isModelSelectionAvailable_final =
     try_catch isModelSelectionAvailable_final_try
       (\<lambda>error. return_io False)"

text \<open>The scripts of \<open>setModelFinal\<close>: the trimmed text of the first button that names a
  model or is the \<open>More\<close> button; click the first button whose trimmed text is \<open>More\<close>;
  and click the first element, \<open>script\<close> and \<open>style\<close> apart, whose text includes the
  name (or rather its closest menu item, when there is one).\<close>

definition current_text_script :: "element list \<Rightarrow> jsstring option" where
  "current_text_script d =
     find (\<lambda>text. text \<noteq> [] \<and> regexp_test probe_with_More text)
       (map (\<lambda>i. trim (textContent (d ! i))) (button_indices d))"

definition click_More_script :: "world \<Rightarrow> unit \<times> world" where
  "click_More_script w =
     (case find (\<lambda>i. trim (textContent (dom w ! i)) = js ''More'') (button_indices (dom w)) of
        None \<Rightarrow> ((), w)
      | Some moreBtn \<Rightarrow> ((), click_element moreBtn w))"

definition search_all_script :: "jsstring \<Rightarrow> world \<Rightarrow> bool \<times> world" where
  "search_all_script nm w =
     (let d = dom w;
          elements = filter (\<lambda>i. str_includes (textContent (d ! i)) nm \<and>
                                 tagName (d ! i) \<noteq> ''SCRIPT'' \<and> tagName (d ! i) \<noteq> ''STYLE'')
                       [0 ..< length d]
      in case find (\<lambda>i. str_includes (trim (textContent (d ! i))) nm) elements of
           None \<Rightarrow> (False, w)
         | Some el \<Rightarrow>
             (True, click_element (case closest_menuitem d el of None \<Rightarrow> el | Some mi \<Rightarrow> mi) w))"

text \<open>The Russian word for reasoning, the second family test of \<open>setModelFinal\<close>.\<close>

definition reasoning_ru :: jsstring where
  "reasoning_ru = [1056, 1072, 1089, 1089, 1091, 1078, 1076, 1077, 1085, 1080, 1077]"

definition setModelFinal_try :: "jsstring \<Rightarrow> bool io" where
  "setModelFinal_try modelDisplayName =
     bind_io (logInfo_final ''Setting model to'') (\<lambda>_.
     bind_io (page_evaluate ''current text'' (\<lambda>w. (current_text_script (dom w), w)))
       (\<lambda>currentText.
     bind_io (logInfo_final ''Current selection'') (\<lambda>_.
     if (case currentText of None \<Rightarrow> False | Some c \<Rightarrow> str_includes c modelDisplayName) then
       bind_io (logInfo_final ''Model already selected'') (\<lambda>_. return_io True)
     else
       bind_io
         (if currentText = Some (js ''More'') then
            bind_io (logInfo_final ''Clicking More to expand model list...'') (\<lambda>_.
            bind_io (page_evaluate ''click More'' click_More_script) (\<lambda>_.
            bind_io (page_sleep 1500) (\<lambda>_.
            bind_io (page_evaluate ''search all elements'' (search_all_script modelDisplayName))
              (\<lambda>found.
            if found then
              bind_io (logInfo_final ''Model selected'') (\<lambda>_.
              bind_io (page_sleep 1000) (\<lambda>_.
              bind_io
                (if str_includes modelDisplayName (js ''Claude'') \<or>
                    str_includes modelDisplayName reasoning_ru then
                   bind_io (logInfo_final ''Checking for reasoning toggle...'') (\<lambda>_.
                   bind_io isReasoningToggleAvailable (\<lambda>toggle.
                   if toggle then
                     bind_io (logInfo_final ''Found reasoning toggle, enabling...'') (\<lambda>_.
                     bind_io enableReasoningMode (\<lambda>_. return_io ()))
                   else return_io ()))
                 else return_io ()) (\<lambda>_.
              return_io (Some True))))
            else return_io None))))
          else return_io None) (\<lambda>returned.
       case returned of
         Some b \<Rightarrow> return_io b
       | None \<Rightarrow>
           bind_io (logWarn_final ''Could not select model'') (\<lambda>_. return_io False)))))"

definition setModelFinal :: "jsstring \<Rightarrow> bool io" where
  "setModelFinal modelDisplayName =
     try_catch (setModelFinal_try modelDisplayName)
       (\<lambda>error.
        bind_io (logWarn_final ''Model selection failed:'') (\<lambda>_. return_io False))"

definition selectModelFinal :: "jsstring \<Rightarrow> jsstring io" where
  "selectModelFinal model =
     bind_io (validated_io (Some model)) (\<lambda>validatedModel.
     let modelConfig = getModelConfig validatedModel in
     bind_io isModelSelectionAvailable_final (\<lambda>available.
     if \<not> available then
       bind_io (logWarn_final ''Model selection UI not available'') (\<lambda>_.
       return_io validatedModel)
     else
       bind_io (setModelFinal
                  (case modelConfig of
                     None \<Rightarrow> validatedModel
                   | Some c \<Rightarrow> if selectorText c \<noteq> [] then selectorText c else validatedModel))
         (\<lambda>_.
       return_io validatedModel)))"

section \<open>Notions of the specification\<close>


text \<open>
  The resolver as the specification words it: the entries are matched case-insensitively
  against the trimmed input, first by canonical identifier, then by display label, then
  by selector label, and the first hit wins.
\<close>

definition resolve_spec :: "jsstring \<Rightarrow> ModelConfig option" where
  "resolve_spec rawName =
     (let key = trim (toLowerCase rawName) in
      case filter (\<lambda>m. toLowerCase (name m) = key) AVAILABLE_MODELS @
           filter (\<lambda>m. toLowerCase (displayName m) = key) AVAILABLE_MODELS @
           filter (\<lambda>m. toLowerCase (selectorText m) = key) AVAILABLE_MODELS of
        [] \<Rightarrow> None
      | m # _ \<Rightarrow> Some m)"

text \<open>
  An operation returns a value, or throws. An operation converts the errors of its \<open>try\<close>
  block when it returns on the page and, whenever the block throws, returns the given
  fallback value in the state that the block left, with the given entries appended to the
  log.
\<close>

definition returns :: "'a io \<Rightarrow> world \<Rightarrow> bool" where
  "returns operation w = (case fst (operation w) of Inl e \<Rightarrow> False | Inr r \<Rightarrow> True)"

definition throws :: "'a io \<Rightarrow> world \<Rightarrow> bool" where
  "throws operation w = (case fst (operation w) of Inl e \<Rightarrow> True | Inr r \<Rightarrow> False)"

definition converts :: "'a io \<Rightarrow> 'a io \<Rightarrow> 'a \<Rightarrow> log \<Rightarrow> world \<Rightarrow> bool" where
  "converts block operation fallback entries w =
     (returns operation w \<and>
      (throws block w \<longrightarrow>
         operation w =
           (Inr fallback, (snd (block w))\<lparr>logged := logged (snd (block w)) @ entries\<rparr>)))"

text \<open>The first \<open>n\<close> primitive calls to come all succeed.\<close>

definition calls_succeed :: "nat \<Rightarrow> world \<Rightarrow> bool" where
  "calls_succeed n w = list_all (\<lambda>f. f = Succeeds) (take n (faults w))"

text \<open>The events that a run appends to the trace of the page.\<close>

definition new_events :: "world \<Rightarrow> world \<Rightarrow> event list" where
  "new_events w w' = drop (length (trace w)) (trace w')"

definition is_click :: "event \<Rightarrow> bool" where
  "is_click ev = (case ev of Clicked i \<Rightarrow> True | _ \<Rightarrow> False)"


text \<open>
  Example pages. Each is a document with its root and body, whose text content is that of
  their descendants. \<open>failing_page\<close> is an empty document on which the next two primitive
  calls throw; \<open>toggle_page\<close> holds the reasoning toggle with a given \<open>aria-checked\<close>
  value; \<open>two_model_page\<close> shows the button of the active model \<open>Claude Sonnet 4.6\<close> and
  a button \<open>Gemini 3.1 Pro\<close>; \<open>More_page\<close> shows the collapsed \<open>More\<close> button and a menu
  item \<open>Gemini 3.1 Pro\<close>. The last two do not react to clicks. \<open>throwing\<close> sets the
  outcomes of the coming primitive calls of a page.
\<close>

definition document_root :: "jsstring \<Rightarrow> element list" where
  "document_root text =
     [\<lparr>tagName = ''HTML'', textContent = text, attributes = [], ancestors = []\<rparr>,
      \<lparr>tagName = ''BODY'', textContent = text, attributes = [], ancestors = [0]\<rparr>]"

definition failing_page :: world where
  "failing_page =
     \<lparr>dom = document_root [], react = (\<lambda>i d. d), keyed = (\<lambda>key d. d), resolve = (\<lambda>selector d. None),
      faults = [Throws, Throws], trace = [], logged = []\<rparr>"

definition throwing :: "outcome list \<Rightarrow> world \<Rightarrow> world" where
  "throwing fs w = w\<lparr>faults := fs\<rparr>"

definition toggle_page :: "jsstring \<Rightarrow> world" where
  "toggle_page checked =
     \<lparr>dom = document_root [] @
            [\<lparr>tagName = ''BUTTON'', textContent = [],
              attributes = [(''value'', js ''on''), (''role'', js ''switch''),
                            (''aria-checked'', checked)],
              ancestors = [1, 0]\<rparr>],
      react = (\<lambda>i d. d), keyed = (\<lambda>key d. d),
      resolve = (\<lambda>selector d. if selector = REASONING_TOGGLE_SELECTOR then Some 2 else None),
      faults = [], trace = [], logged = []\<rparr>"

definition two_model_page :: world where
  "two_model_page =
     \<lparr>dom = document_root (js ''Claude Sonnet 4.6Gemini 3.1 Pro'') @
            [\<lparr>tagName = ''BUTTON'', textContent = js ''Claude Sonnet 4.6'', attributes = [],
              ancestors = [1, 0]\<rparr>,
             \<lparr>tagName = ''BUTTON'', textContent = js ''Gemini 3.1 Pro'', attributes = [],
              ancestors = [1, 0]\<rparr>],
      react = (\<lambda>i d. d), keyed = (\<lambda>key d. d), resolve = (\<lambda>selector d. None),
      faults = [], trace = [], logged = []\<rparr>"

definition More_page :: world where
  "More_page =
     \<lparr>dom = document_root (js ''MoreGemini 3.1 Pro'') @
            [\<lparr>tagName = ''BUTTON'', textContent = js ''More'', attributes = [],
              ancestors = [1, 0]\<rparr>,
             \<lparr>tagName = ''DIV'', textContent = js ''Gemini 3.1 Pro'',
              attributes = [(''role'', js ''menuitem'')], ancestors = [1, 0]\<rparr>],
      react = (\<lambda>i d. d), keyed = (\<lambda>key d. d), resolve = (\<lambda>selector d. None),
      faults = [], trace = [], logged = []\<rparr>"

section \<open>The catalog\<close>

lemmas string_eval = js_def toLowerCase_def toLowerUnit_def trim_def isWhiteSpace_def

text \<open>
  Claim C4. The constant catalog satisfies the four integrity invariants: the
  identifiers are pairwise distinct, the display labels are pairwise distinct, exactly
  one entry is the default (it is the first entry, \<open>getDefaultModel\<close> returns it and does
  not throw), and the selector text of every entry equals its display label. The catalog
  is a constant of the model: no operation takes it as an argument or returns it, so none
  can change it.
\<close>

theorem catalog_integrity:
  "distinct (map name AVAILABLE_MODELS) \<and>
   distinct (map displayName AVAILABLE_MODELS) \<and>
   length (filter (\<lambda>m. isDefault m = Some True) AVAILABLE_MODELS) = 1 \<and>
   getDefaultModel = Inr (AVAILABLE_MODELS ! 0) \<and>
   isDefault (AVAILABLE_MODELS ! 0) = Some True \<and>
   name (AVAILABLE_MODELS ! 0) = js ''claude-sonnet-4.6'' \<and>
   list_all (\<lambda>m. selectorText m = displayName m) AVAILABLE_MODELS"
  by (simp add: AVAILABLE_MODELS_def getDefaultModel_def js_def)

section \<open>The banned-name policy\<close>

lemma match_from_literals:
  "match_from ic (map CharLit w @ [AssertEnd]) s i \<longleftrightarrow>
     i + length w = length s \<and> map (canonicalize ic) (drop i s) = map (canonicalize ic) w"
proof (induction w arbitrary: i)
  case Nil
  show ?case by auto
next
  case (Cons c w)
  show ?case
  proof (cases "i < length s")
    case True
    then have "drop i s = s ! i # drop (Suc i) s"
      by (simp add: Cons_nth_drop_Suc)
    with True Cons show ?thesis by auto
  next
    case False
    then show ?thesis by simp
  qed
qed

lemma regexp_test_anchored:
  "regexp_test (anchored_word_i w) s \<longleftrightarrow>
     map (canonicalize True) s = map (canonicalize True) w"
proof -
  have "regexp_test (anchored_word_i w) s \<longleftrightarrow>
          match_from True (map CharLit w @ [AssertEnd]) s 0"
    by (auto simp: regexp_test_def anchored_word_i_def list_ex_iff)
  also have "\<dots> \<longleftrightarrow> length w = length s \<and> map (canonicalize True) s = map (canonicalize True) w"
    by (simp add: match_from_literals)
  also have "\<dots> \<longleftrightarrow> map (canonicalize True) s = map (canonicalize True) w"
    using map_eq_imp_length_eq by fastforce
  finally show ?thesis .
qed

lemma isModelAllowed_loop_iff:
  "isModelAllowed_loop ps s \<longleftrightarrow> (\<forall>p \<in> set ps. \<not> regexp_test p (trim s))"
  by (induction ps) auto

lemma isModelAllowed_iff:
  "isModelAllowed s \<longleftrightarrow>
     (\<forall>w \<in> set banned_words. map (canonicalize True) (trim s) \<noteq> map (canonicalize True) w)"
  by (simp add: isModelAllowed_def isModelAllowed_loop_iff BANNED_MODEL_PATTERNS_def
      regexp_test_anchored)




























section \<open>The resolver and the validator\<close>

lemma getDefaultModel_name_eq: "getDefaultModel_name = Inr (js ''claude-sonnet-4.6'')"
  by (simp add: getDefaultModel_name_def getDefaultModel_def AVAILABLE_MODELS_def)

lemma logWarn_unbound:
  "call_log model_config_bindings ''logWarn'' l msg lg = Inl (ReferenceError ''logWarn'')"
  by (simp add: call_log_def model_config_bindings_def)

lemma getValidatedModel_cases:
  "getValidatedModel m lg =
     (if m = None \<or> m = Some [] then (Inr (js ''claude-sonnet-4.6''), lg)
      else case getModelConfig (the m) of
             None \<Rightarrow> (Inl (ReferenceError ''logWarn''), lg)
           | Some c \<Rightarrow> if isModelAllowed (name c) then (Inr (name c), lg)
                       else (Inl (ReferenceError ''logWarn''), lg))"
  by (auto simp: getValidatedModel_def getDefaultModel_name_eq logWarn_unbound
      split: option.splits)

lemma getModelConfig_in_catalog:
  "getModelConfig raw = Some c \<Longrightarrow> c \<in> set AVAILABLE_MODELS"
  by (auto simp: getModelConfig_def Let_def find_Some_iff split: if_splits)

lemma find_filter:
  "find P xs = (case filter P xs of [] \<Rightarrow> None | x # _ \<Rightarrow> Some x)"
  by (induction xs) auto

lemma getModelConfig_resolve_spec: "getModelConfig rawName = resolve_spec rawName"
  by (simp add: getModelConfig_def resolve_spec_def Let_def find_filter split: list.splits)

lemma getModelConfig_None_iff:
  "getModelConfig rawName = None \<longleftrightarrow>
     list_all (\<lambda>m. toLowerCase (name m) \<noteq> trim (toLowerCase rawName) \<and>
                    toLowerCase (displayName m) \<noteq> trim (toLowerCase rawName) \<and>
                    toLowerCase (selectorText m) \<noteq> trim (toLowerCase rawName)) AVAILABLE_MODELS"
proof -
  let ?k = "trim (toLowerCase rawName)"
  have "getModelConfig rawName = None \<longleftrightarrow>
      find (\<lambda>m. toLowerCase (name m) = ?k) AVAILABLE_MODELS = None \<and>
      find (\<lambda>m. toLowerCase (displayName m) = ?k) AVAILABLE_MODELS = None \<and>
      find (\<lambda>m. toLowerCase (selectorText m) = ?k) AVAILABLE_MODELS = None"
    by (auto simp: getModelConfig_def Let_def)
  then show ?thesis
    unfolding find_None_iff list_all_iff by blast
qed

lemma getModelConfig_normalized:
  "trim (toLowerCase x) = trim (toLowerCase y) \<Longrightarrow> getModelConfig x = getModelConfig y"
  by (simp add: getModelConfig_def)

text \<open>
  Claim C5. \<open>getModelConfig\<close> matches the lower-cased, trimmed input case-insensitively
  in the fixed order identifier, display label, selector label, the first hit winning (it
  agrees with the resolver as the specification words it), and returns \<open>undefined\<close>
  exactly when no entry matches in any of the three fields; so \<open>getValidatedModel\<close> is
  case-insensitive: \<open>GEMINI-3.1-PRO\<close> and \<open>gemini-3.1-pro\<close> both give
  \<open>gemini-3.1-pro\<close>, and two non-empty inputs with the same normal form give the same
  result.
\<close>

theorem getModelConfig_matching_order:
  "getModelConfig rawName = resolve_spec rawName \<and>
   (getModelConfig rawName = None \<longleftrightarrow>
      list_all (\<lambda>m. toLowerCase (name m) \<noteq> trim (toLowerCase rawName) \<and>
                     toLowerCase (displayName m) \<noteq> trim (toLowerCase rawName) \<and>
                     toLowerCase (selectorText m) \<noteq> trim (toLowerCase rawName)) AVAILABLE_MODELS) \<and>
   getValidatedModel (Some (js ''GEMINI-3.1-PRO'')) lg = (Inr (js ''gemini-3.1-pro''), lg) \<and>
   getValidatedModel (Some (js ''gemini-3.1-pro'')) lg = (Inr (js ''gemini-3.1-pro''), lg) \<and>
   (x \<noteq> [] \<and> y \<noteq> [] \<and> trim (toLowerCase x) = trim (toLowerCase y)
      \<longrightarrow> getValidatedModel (Some x) lg = getValidatedModel (Some y) lg)"
proof (intro conjI impI)
  show "getModelConfig rawName = resolve_spec rawName"
    by (rule getModelConfig_resolve_spec)
  show "getModelConfig rawName = None \<longleftrightarrow>
      list_all (\<lambda>m. toLowerCase (name m) \<noteq> trim (toLowerCase rawName) \<and>
                     toLowerCase (displayName m) \<noteq> trim (toLowerCase rawName) \<and>
                     toLowerCase (selectorText m) \<noteq> trim (toLowerCase rawName)) AVAILABLE_MODELS"
    by (rule getModelConfig_None_iff)
  have g: "getModelConfig (js ''GEMINI-3.1-PRO'') = Some (AVAILABLE_MODELS ! 1)"
    "getModelConfig (js ''gemini-3.1-pro'') = Some (AVAILABLE_MODELS ! 1)"
    by (simp_all add: getModelConfig_def AVAILABLE_MODELS_def string_eval)
  have a: "isModelAllowed (name (AVAILABLE_MODELS ! 1))"
    by (simp add: isModelAllowed_iff banned_words_def AVAILABLE_MODELS_def string_eval)
  have n: "name (AVAILABLE_MODELS ! 1) = js ''gemini-3.1-pro''"
    by (simp add: AVAILABLE_MODELS_def)
  have ne: "js ''GEMINI-3.1-PRO'' \<noteq> []" "js ''gemini-3.1-pro'' \<noteq> []"
    by (simp_all add: js_def)
  show "getValidatedModel (Some (js ''GEMINI-3.1-PRO'')) lg = (Inr (js ''gemini-3.1-pro''), lg)"
    using g(1) a n ne(1) by (simp add: getValidatedModel_cases)
  show "getValidatedModel (Some (js ''gemini-3.1-pro'')) lg = (Inr (js ''gemini-3.1-pro''), lg)"
    using g(2) a n ne(2) by (simp add: getValidatedModel_cases)
next
  assume "x \<noteq> [] \<and> y \<noteq> [] \<and> trim (toLowerCase x) = trim (toLowerCase y)"
  then show "getValidatedModel (Some x) lg = getValidatedModel (Some y) lg"
    using getModelConfig_normalized [of x y] by (simp add: getValidatedModel_cases)
qed

text \<open>The theorem at \<open>Kimi K2.5\<close> and the same label in lower case between spaces.\<close>

theorem getModelConfig_matching_order_witness:
  "js ''Kimi K2.5'' \<noteq> [] \<and> js ''  kimi k2.5 '' \<noteq> [] \<and>
   trim (toLowerCase (js ''Kimi K2.5'')) = trim (toLowerCase (js ''  kimi k2.5 '')) \<and>
   getValidatedModel (Some (js ''Kimi K2.5'')) [] = getValidatedModel (Some (js ''  kimi k2.5 '')) []"
proof -
  have h: "js ''Kimi K2.5'' \<noteq> [] \<and> js ''  kimi k2.5 '' \<noteq> [] \<and>
     trim (toLowerCase (js ''Kimi K2.5'')) = trim (toLowerCase (js ''  kimi k2.5 ''))"
    by (simp add: string_eval)
  with getModelConfig_matching_order [of "js ''Kimi K2.5''" "[]" "js ''Kimi K2.5''" "js ''  kimi k2.5 ''"]
  show ?thesis by blast
qed

text \<open>
  Claim C1. \<open>getValidatedModel\<close> is claimed to be total and to return the default name,
  after logging a warning, for an input that resolves to no entry or to a banned entry.
  Both fallback branches call \<open>logWarn\<close>, which \<open>model-config.ts\<close> neither imports nor
  declares: for \<open>non-existent-model\<close> (no entry) and for \<open>Sonar\<close> (the banned entry) the
  call throws a \<open>ReferenceError\<close>, no warning is logged and no name is returned.
\<close>

theorem getValidatedModel_fallback_raises:
  "getValidatedModel (Some (js ''non-existent-model'')) lg = (Inl (ReferenceError ''logWarn''), lg) \<and>
   getValidatedModel (Some (js ''Sonar'')) lg = (Inl (ReferenceError ''logWarn''), lg)"
proof
  have "getModelConfig (js ''non-existent-model'') = None"
    by (simp add: getModelConfig_def AVAILABLE_MODELS_def string_eval)
  then show "getValidatedModel (Some (js ''non-existent-model'')) lg = (Inl (ReferenceError ''logWarn''), lg)"
    by (simp add: getValidatedModel_cases js_def)
  have "getModelConfig (js ''Sonar'') = Some (AVAILABLE_MODELS ! 8)"
    by (simp add: getModelConfig_def AVAILABLE_MODELS_def string_eval)
  moreover have "\<not> isModelAllowed (name (AVAILABLE_MODELS ! 8))"
    by (simp add: isModelAllowed_iff banned_words_def AVAILABLE_MODELS_def string_eval)
  ultimately show "getValidatedModel (Some (js ''Sonar'')) lg = (Inl (ReferenceError ''logWarn''), lg)"
    by (simp add: getValidatedModel_cases js_def)
qed


lemma catalog_names_resolve:
  "list_all (\<lambda>c. name c \<noteq> [] \<and>
       find (\<lambda>m. toLowerCase (name m) = trim (toLowerCase (name c))) AVAILABLE_MODELS = Some c)
     AVAILABLE_MODELS"
  by (simp add: AVAILABLE_MODELS_def string_eval)

lemma catalog_name_fixed:
  assumes "c \<in> set AVAILABLE_MODELS"
  shows "name c \<noteq> []"
    and "find (\<lambda>m. toLowerCase (name m) = trim (toLowerCase (name c))) AVAILABLE_MODELS = Some c"
    and "getModelConfig (name c) = Some c"
proof -
  from assms catalog_names_resolve show 1: "name c \<noteq> []"
    and 2: "find (\<lambda>m. toLowerCase (name m) = trim (toLowerCase (name c))) AVAILABLE_MODELS = Some c"
    unfolding list_all_iff by blast+
  from 2 show "getModelConfig (name c) = Some c"
    by (simp add: getModelConfig_def)
qed

lemma sonar_banned: "\<not> isModelAllowed (js ''sonar'')"
  by (simp add: isModelAllowed_iff banned_words_def string_eval)

lemma default_entry:
  "AVAILABLE_MODELS ! 0 \<in> set AVAILABLE_MODELS \<and> name (AVAILABLE_MODELS ! 0) = js ''claude-sonnet-4.6'' \<and>
   isModelAllowed (js ''claude-sonnet-4.6'')"
  by (simp add: AVAILABLE_MODELS_def isModelAllowed_iff banned_words_def string_eval)

lemma getValidatedModel_returns:
  assumes "getValidatedModel x lg = (Inr v, lg')"
  shows "lg' = lg \<and> isModelAllowed v \<and> (\<exists>c \<in> set AVAILABLE_MODELS. name c = v)"
proof (cases "x = None \<or> x = Some []")
  case True
  with assms have "v = js ''claude-sonnet-4.6''" "lg' = lg"
    by (auto simp: getValidatedModel_cases)
  with default_entry show ?thesis by metis
next
  case False
  with assms obtain c where "getModelConfig (the x) = Some c" "isModelAllowed (name c)"
    "v = name c" "lg' = lg"
    by (auto simp: getValidatedModel_cases split: option.splits if_splits)
  with getModelConfig_in_catalog show ?thesis by blast
qed

lemma getValidatedModel_fixed_point:
  assumes "getValidatedModel x lg = (Inr v, lg')"
  shows "getValidatedModel (Some v) lg'' = (Inr v, lg'')"
proof -
  from getValidatedModel_returns [OF assms] obtain c
    where c: "c \<in> set AVAILABLE_MODELS" "name c = v" and a: "isModelAllowed v"
    by blast
  from catalog_name_fixed(1,3) [OF c(1)] c(2) a show ?thesis
    by (simp add: getValidatedModel_cases)
qed

lemma getValidatedModel_returned_name:
  assumes "getValidatedModel x lg = (Inr v, lg')"
  shows "getValidatedModel (Some v) lg' = (Inr v, lg')"
    and "\<exists>c \<in> set AVAILABLE_MODELS. name c = v \<and>
           find (\<lambda>m. toLowerCase (name m) = trim (toLowerCase v)) AVAILABLE_MODELS = Some c"
    and "isModelAllowed v" and "v \<noteq> js ''sonar''"
proof -
  show "getValidatedModel (Some v) lg' = (Inr v, lg')"
    using assms by (rule getValidatedModel_fixed_point)
  from getValidatedModel_returns [OF assms] show a: "isModelAllowed v"
    by blast
  from a sonar_banned show "v \<noteq> js ''sonar''"
    by auto
  from getValidatedModel_returns [OF assms] obtain c where "c \<in> set AVAILABLE_MODELS" "name c = v"
    by blast
  with catalog_name_fixed(2) [of c]
  show "\<exists>c \<in> set AVAILABLE_MODELS. name c = v \<and>
         find (\<lambda>m. toLowerCase (name m) = trim (toLowerCase v)) AVAILABLE_MODELS = Some c"
    by blast
qed

text \<open>
  Claim C10. \<open>getValidatedModel\<close> is claimed to be idempotent on every input, the banned
  identifier \<open>sonar\<close> giving the default name. Resolving \<open>sonar\<close> reaches the branch of
  the banned entries, whose call of \<open>logWarn\<close> is not bound in \<open>model-config.ts\<close>: the
  call throws a \<open>ReferenceError\<close>, so that \<open>getValidatedModel("sonar")\<close> returns no value,
  the default name least of all, and the second validation is never reached. The same
  happens for an input that resolves to no entry. (The values that are returned are fixed
  points: lemma \<open>getValidatedModel_returned_name\<close>.)
\<close>

theorem getValidatedModel_sonar_raises:
  "getValidatedModel (Some (js ''sonar'')) lg = (Inl (ReferenceError ''logWarn''), lg) \<and>
   getValidatedModel (Some (js ''sonar'')) lg \<noteq> (Inr (js ''claude-sonnet-4.6''), lg) \<and>
   bind_io (validated_io (Some (js ''sonar''))) (\<lambda>v. validated_io (Some v)) w =
     (Inl (ReferenceError ''logWarn''), w) \<and>
   bind_io (validated_io (Some (js ''no such model''))) (\<lambda>v. validated_io (Some v)) w =
     (Inl (ReferenceError ''logWarn''), w) \<and>
   getValidatedModel (Some (js ''claude-sonnet-4.6'')) lg = (Inr (js ''claude-sonnet-4.6''), lg)"
proof -
  have s: "getModelConfig (js ''sonar'') = Some (AVAILABLE_MODELS ! 8)"
    and n: "getModelConfig (js ''no such model'') = None"
    and d: "getModelConfig (js ''claude-sonnet-4.6'') = Some (AVAILABLE_MODELS ! 0)"
    by (simp_all add: getModelConfig_def AVAILABLE_MODELS_def string_eval)
  have b: "\<not> isModelAllowed (name (AVAILABLE_MODELS ! 8))"
    and a: "isModelAllowed (name (AVAILABLE_MODELS ! 0))"
    and e: "name (AVAILABLE_MODELS ! 0) = js ''claude-sonnet-4.6''"
    by (simp_all add: isModelAllowed_iff banned_words_def AVAILABLE_MODELS_def string_eval)
  have 1: "getValidatedModel (Some (js ''sonar'')) l = (Inl (ReferenceError ''logWarn''), l)" for l
    using s b by (simp add: getValidatedModel_cases js_def)
  have 2: "getValidatedModel (Some (js ''no such model'')) l = (Inl (ReferenceError ''logWarn''), l)" for l
    using n by (simp add: getValidatedModel_cases js_def)
  have 3: "getValidatedModel (Some (js ''claude-sonnet-4.6'')) lg = (Inr (js ''claude-sonnet-4.6''), lg)"
    using d a e by (simp add: getValidatedModel_cases js_def)
  show ?thesis
    by (simp add: 1 2 3 bind_io_def validated_io_def)
qed

section \<open>Errors of the UI path\<close>

lemma log_io_bound:
  "ident \<in> set bindings \<Longrightarrow>
   log_io bindings ident l msg w = (Inr (), w\<lparr>logged := logged w @ [(l, msg)]\<rparr>)"
  by (simp add: log_io_def call_log_def logging_write_def)

lemma log_calls:
  "logInfo msg w = (Inr (), w\<lparr>logged := logged w @ [(INFO, msg)]\<rparr>)"
  "logWarn msg w = (Inr (), w\<lparr>logged := logged w @ [(WARN, msg)]\<rparr>)"
  "logInfo_final msg w = (Inr (), w\<lparr>logged := logged w @ [(INFO, msg)]\<rparr>)"
  "logWarn_final msg w = (Inr (), w\<lparr>logged := logged w @ [(WARN, msg)]\<rparr>)"
  "log_io reasoning_toggle_bindings ''logInfo'' l msg w = (Inr (), w\<lparr>logged := logged w @ [(l, msg)]\<rparr>)"
  "log_io reasoning_toggle_bindings ''logWarn'' l msg w = (Inr (), w\<lparr>logged := logged w @ [(l, msg)]\<rparr>)"
  by (simp_all add: logInfo_def logWarn_def logInfo_final_def logWarn_final_def log_io_bound
      model_selection_bindings_def model_selection_final_bindings_def reasoning_toggle_bindings_def)

lemma setModel_catch:
  "setModel n w =
     (case setModel_try n w of
        (Inl e, w') \<Rightarrow> (Inr False, w'\<lparr>logged := logged w' @ [(WARN, ''Failed to set model'')]\<rparr>)
      | (Inr x, w') \<Rightarrow> (Inr x, w'))"
  unfolding setModel_def by (simp add: try_catch_def bind_io_def return_io_def log_calls split: prod.splits sum.splits)

lemma setModelFinal_catch:
  "setModelFinal n w =
     (case setModelFinal_try n w of
        (Inl e, w') \<Rightarrow> (Inr False, w'\<lparr>logged := logged w' @ [(WARN, ''Model selection failed:'')]\<rparr>)
      | (Inr x, w') \<Rightarrow> (Inr x, w'))"
  unfolding setModelFinal_def by (simp add: try_catch_def bind_io_def return_io_def log_calls split: prod.splits sum.splits)

lemma isModelSelectionAvailable_catch:
  "isModelSelectionAvailable w =
     (case isModelSelectionAvailable_try w of
        (Inl e, w') \<Rightarrow> (Inr False, w'\<lparr>logged := logged w' @ [(WARN, ''Error checking availability:'')]\<rparr>)
      | (Inr x, w') \<Rightarrow> (Inr x, w'))"
  unfolding isModelSelectionAvailable_def by (simp add: try_catch_def bind_io_def return_io_def log_calls split: prod.splits sum.splits)

lemma isModelSelectionAvailable_final_catch:
  "isModelSelectionAvailable_final w =
     (case isModelSelectionAvailable_final_try w of
        (Inl e, w') \<Rightarrow> (Inr False, w')
      | (Inr x, w') \<Rightarrow> (Inr x, w'))"
  unfolding isModelSelectionAvailable_final_def by (simp add: try_catch_def bind_io_def return_io_def log_calls split: prod.splits sum.splits)

lemma getCurrentlySelectedModel_catch:
  "getCurrentlySelectedModel w =
     (case getCurrentlySelectedModel_try w of
        (Inl e, w') \<Rightarrow> (Inr None, w'\<lparr>logged := logged w' @ [(WARN, ''Error getting current model:'')]\<rparr>)
      | (Inr x, w') \<Rightarrow> (Inr x, w'))"
  unfolding getCurrentlySelectedModel_def by (simp add: try_catch_def bind_io_def return_io_def log_calls split: prod.splits sum.splits)

lemma enableReasoningMode_catch:
  "enableReasoningMode w =
     (case enableReasoningMode_try w of
        (Inl e, w') \<Rightarrow> (Inr False, w'\<lparr>logged := logged w' @ [(WARN, ''Failed to enable reasoning mode:'')]\<rparr>)
      | (Inr x, w') \<Rightarrow> (Inr x, w'))"
  unfolding enableReasoningMode_def by (simp add: try_catch_def bind_io_def return_io_def log_calls split: prod.splits sum.splits)

lemma isReasoningToggleAvailable_catch:
  "isReasoningToggleAvailable w =
     (case isReasoningToggleAvailable_try w of
        (Inl e, w') \<Rightarrow> (Inr False, w'\<lparr>logged := logged w' @ [(WARN, ''Error checking reasoning toggle availability:'')]\<rparr>)
      | (Inr x, w') \<Rightarrow> (Inr x, w'))"
  unfolding isReasoningToggleAvailable_def by (simp add: try_catch_def bind_io_def return_io_def log_calls split: prod.splits sum.splits)

lemmas catches = setModel_catch setModelFinal_catch isModelSelectionAvailable_catch
  isModelSelectionAvailable_final_catch getCurrentlySelectedModel_catch
  enableReasoningMode_catch isReasoningToggleAvailable_catch

lemma caught_total:
  "(\<exists>b w'. setModel n w = (Inr b, w'))"
  "(\<exists>b w'. setModelFinal n w = (Inr b, w'))"
  "(\<exists>b w'. isModelSelectionAvailable w = (Inr b, w'))"
  "(\<exists>b w'. isModelSelectionAvailable_final w = (Inr b, w'))"
  "(\<exists>r w'. getCurrentlySelectedModel w = (Inr r, w'))"
  "(\<exists>b w'. enableReasoningMode w = (Inr b, w'))"
  "(\<exists>b w'. isReasoningToggleAvailable w = (Inr b, w'))"
  by (auto simp: catches split: prod.splits sum.splits)


lemma primitive_alt:
  "primitive ev act w =
     (let w1 = snd (next_outcome w); w2 = w1\<lparr>trace := trace w1 @ [ev]\<rparr> in
      case fst (next_outcome w) of
        Succeeds \<Rightarrow> act w2
      | Throws \<Rightarrow> (Inl PageError, w2\<lparr>trace := trace w2 @ [Threw]\<rparr>)
      | ThrowsAfter \<Rightarrow>
          (Inl PageError, (snd (act w2))\<lparr>trace := trace (snd (act w2)) @ [Threw]\<rparr>))"
  by (simp add: primitive_def Let_def split: prod.splits outcome.splits)

lemmas io_defs0 = bind_io_def return_io_def primitive_def next_outcome_def page_evaluate_def
  page_sleep_def page_click_def page_query_def click_element_def

lemmas io_defs = bind_io_def return_io_def primitive_alt next_outcome_def page_evaluate_def
  page_sleep_def page_click_def page_query_def click_element_def Let_def

lemma faults_Nil_update: "faults w = [] \<Longrightarrow> w\<lparr>faults := []\<rparr> = w"
  by (cases w) simp

lemma primitive_ok:
  assumes "list_all (\<lambda>f. f = Succeeds) (take 1 (faults w))"
  shows "primitive ev act w = act (w\<lparr>faults := drop 1 (faults w), trace := trace w @ [ev]\<rparr>)"
proof (cases "faults w")
  case Nil
  then show ?thesis
    by (simp add: primitive_def next_outcome_def faults_Nil_update)
next
  case (Cons f r)
  with assms show ?thesis
    by (simp add: primitive_def next_outcome_def)
qed

lemma calls_succeed_at:
  assumes "calls_succeed n w" and "j < n"
  shows "list_all (\<lambda>f. f = Succeeds) (take 1 (drop j (faults w)))"
proof -
  have "set (take 1 (drop j (faults w))) \<subseteq> set (take n (faults w))"
  proof
    fix x assume "x \<in> set (take 1 (drop j (faults w)))"
    then have "j < length (faults w)" and "x = faults w ! j"
      by (auto simp: in_set_conv_nth)
    with assms(2) show "x \<in> set (take n (faults w))"
      by (auto simp: in_set_conv_nth intro!: exI [of _ j])
  qed
  with assms(1) show ?thesis
    by (auto simp: calls_succeed_def list_all_iff)
qed

lemmas ok_defs = bind_io_def return_io_def page_evaluate_def page_sleep_def page_click_def
  page_query_def click_element_def

lemma enable_checked:
  assumes "calls_succeed 1 w" and "toggle_is_checked w"
  shows "fst (enableReasoningMode w) = Inr True \<and> dom (snd (enableReasoningMode w)) = dom w \<and>
         new_events w (snd (enableReasoningMode w)) = [Evaluate ''aria-checked'']"
proof -
  note ok = calls_succeed_at [OF assms(1), of 0, simplified]
  from assms(2) have "toggle_is_checked (w\<lparr>logged := l, faults := f, trace := t\<rparr>)" for l f t
    by (simp add: toggle_is_checked_def split: option.splits)
  then show ?thesis
    by (simp add: enableReasoningMode_catch enableReasoningMode_try_def ok_defs primitive_ok ok
        log_calls new_events_def)
qed

lemma enable_clicks:
  assumes "calls_succeed 3 w" and "\<not> toggle_is_checked w"
    and "resolve w REASONING_TOGGLE_SELECTOR (dom w) = Some i"
  shows "fst (enableReasoningMode w) = Inr True \<and>
         dom (snd (enableReasoningMode w)) = react w i (dom w) \<and>
         new_events w (snd (enableReasoningMode w)) =
           [Evaluate ''aria-checked'', ClickSelector REASONING_TOGGLE_SELECTOR, Clicked i, Sleep 500]"
proof -
  note ok = calls_succeed_at [OF assms(1), of 0, simplified]
    calls_succeed_at [OF assms(1), of "Suc 0", simplified]
    calls_succeed_at [OF assms(1), of "Suc (Suc 0)", simplified]
  from assms(2) have "\<not> toggle_is_checked (w\<lparr>logged := l, faults := f, trace := t\<rparr>)" for l f t
    by (simp add: toggle_is_checked_def split: option.splits)
  with assms(3) show ?thesis
    by (simp add: enableReasoningMode_catch enableReasoningMode_try_def ok_defs primitive_ok ok
        log_calls new_events_def)
qed

lemma enable_fails:
  assumes "\<not> (calls_succeed 1 w \<and> toggle_is_checked w)"
    and "\<not> (calls_succeed 3 w \<and> resolve w REASONING_TOGGLE_SELECTOR (dom w) \<noteq> None)"
  shows "fst (enableReasoningMode w) = Inr False \<and>
         last (logged (snd (enableReasoningMode w))) = (WARN, ''Failed to enable reasoning mode:'')"
proof -
  have "fst (enableReasoningMode_try w) = Inl PageError"
  proof (cases "faults w")
    case Nil
    with assms show ?thesis
      by (simp add: enableReasoningMode_try_def io_defs log_calls calls_succeed_def
          toggle_is_checked_def split: option.splits)
  next
    case (Cons f1 r1)
    show ?thesis
    proof (cases f1)
      case Succeeds
      with Cons assms(1) have nc: "\<not> toggle_is_checked w"
        by (simp add: calls_succeed_def)
      show ?thesis
      proof (cases r1)
        case Nil
        with Cons Succeeds nc assms(2) show ?thesis
          by (simp add: enableReasoningMode_try_def io_defs log_calls calls_succeed_def
              toggle_is_checked_def numeral_3_eq_3 split: option.splits)
      next
        case c2: (Cons f2 r2)
        show ?thesis
        proof (cases f2)
          case s2: Succeeds
          with Cons Succeeds c2 nc assms(2) show ?thesis
            by (cases r2; cases "hd r2")
              (simp_all add: enableReasoningMode_try_def io_defs log_calls calls_succeed_def
                toggle_is_checked_def numeral_3_eq_3 split: option.splits)
        next
          case Throws
          with Cons Succeeds c2 nc show ?thesis
            by (simp add: enableReasoningMode_try_def io_defs log_calls toggle_is_checked_def
                split: option.splits)
        next
          case ThrowsAfter
          with Cons Succeeds c2 nc show ?thesis
            by (simp add: enableReasoningMode_try_def io_defs log_calls toggle_is_checked_def
                split: option.splits)
        qed
      qed
    next
      case Throws
      with Cons show ?thesis
        by (simp add: enableReasoningMode_try_def io_defs log_calls)
    next
      case ThrowsAfter
      with Cons show ?thesis
        by (simp add: enableReasoningMode_try_def io_defs log_calls)
    qed
  qed
  then show ?thesis
    by (cases "enableReasoningMode_try w") (simp add: enableReasoningMode_catch)
qed

text \<open>
  Claim C9. \<open>enableReasoningMode\<close> first reads the \<open>aria-checked\<close> state of the toggle.
  If the read succeeds and the toggle is on, it returns \<open>true\<close> and the read is the only
  page operation: no click. Otherwise, if the click and the settle wait succeed too and
  the toggle exists, it clicks the toggle, waits 500 ms and returns \<open>true\<close>. In every
  other case (a primitive throws, or there is no toggle) it logs a warning and returns
  \<open>false\<close>. It never throws.
\<close>

theorem enableReasoningMode_behaviour:
  "(calls_succeed 1 w \<and> toggle_is_checked w \<longrightarrow>
      fst (enableReasoningMode w) = Inr True \<and> dom (snd (enableReasoningMode w)) = dom w \<and>
      new_events w (snd (enableReasoningMode w)) = [Evaluate ''aria-checked'']) \<and>
   (calls_succeed 3 w \<and> \<not> toggle_is_checked w \<and>
    resolve w REASONING_TOGGLE_SELECTOR (dom w) = Some i \<longrightarrow>
      fst (enableReasoningMode w) = Inr True \<and>
      dom (snd (enableReasoningMode w)) = react w i (dom w) \<and>
      new_events w (snd (enableReasoningMode w)) =
        [Evaluate ''aria-checked'', ClickSelector REASONING_TOGGLE_SELECTOR, Clicked i, Sleep 500]) \<and>
   (\<not> (calls_succeed 1 w \<and> toggle_is_checked w) \<and>
    \<not> (calls_succeed 3 w \<and> resolve w REASONING_TOGGLE_SELECTOR (dom w) \<noteq> None) \<longrightarrow>
      fst (enableReasoningMode w) = Inr False \<and>
      last (logged (snd (enableReasoningMode w))) = (WARN, ''Failed to enable reasoning mode:'')) \<and>
   (\<exists>b w'. enableReasoningMode w = (Inr b, w'))"
  using enable_checked [of w] enable_clicks [of w i] enable_fails [of w] caught_total(6) [of w]
  by blast


lemma log_calls_dropdown:
  "logInfo_dropdown msg w = (Inr (), w\<lparr>logged := logged w @ [(INFO, msg)]\<rparr>)"
  "logWarn_dropdown msg w = (Inr (), w\<lparr>logged := logged w @ [(WARN, msg)]\<rparr>)"
  "logError_dropdown msg w = (Inr (), w\<lparr>logged := logged w @ [(ERROR, msg)]\<rparr>)"
  by (simp_all add: logInfo_dropdown_def logWarn_dropdown_def logError_dropdown_def log_io_bound
      model_selection_dropdown_bindings_def)

lemma try_catch_converts:
  assumes "\<And>e w'. handler e w' = (Inr fallback, w'\<lparr>logged := logged w' @ entries\<rparr>)"
  shows "converts block (try_catch block handler) fallback entries w"
  by (cases "block w"; cases "fst (block w)")
    (simp_all add: converts_def returns_def throws_def try_catch_def assms)

lemma handlers:
  "bind_io (logWarn msg) (\<lambda>_. return_io x) w' = (Inr x, w'\<lparr>logged := logged w' @ [(WARN, msg)]\<rparr>)"
  "bind_io (logWarn_final msg) (\<lambda>_. return_io x) w' =
     (Inr x, w'\<lparr>logged := logged w' @ [(WARN, msg)]\<rparr>)"
  "bind_io (log_io reasoning_toggle_bindings ''logWarn'' WARN msg) (\<lambda>_. return_io x) w' =
     (Inr x, w'\<lparr>logged := logged w' @ [(WARN, msg)]\<rparr>)"
  "bind_io (logWarn_dropdown msg) (\<lambda>_. return_io x) w' =
     (Inr x, w'\<lparr>logged := logged w' @ [(WARN, msg)]\<rparr>)"
  "bind_io (logError_dropdown msg) (\<lambda>_. return_io x) w' =
     (Inr x, w'\<lparr>logged := logged w' @ [(ERROR, msg)]\<rparr>)"
  "return_io x w' = (Inr x, w'\<lparr>logged := logged w' @ []\<rparr>)"
  by (simp_all add: bind_io_def return_io_def log_calls log_calls_dropdown)

lemma returnsD: "returns operation w \<Longrightarrow> \<exists>r w'. operation w = (Inr r, w')"
  by (cases "operation w"; cases "fst (operation w)") (auto simp: returns_def)

lemma dropdown_operations_return:
  "returns getCurrentlySelectedModel_dropdown w"
  "returns openModelDropdown w"
  "returns (selectModelFromDropdown c) w"
  "returns closeModelDropdown w"
  using try_catch_converts [OF handlers(4), of getCurrentlySelectedModel_dropdown_try]
    try_catch_converts [OF handlers(5), of openModelDropdown_try]
    try_catch_converts [OF handlers(5), of "selectModelFromDropdown_try c"]
    try_catch_converts [OF handlers(4), of closeModelDropdown_try]
  by (simp_all add: converts_def getCurrentlySelectedModel_dropdown_def openModelDropdown_def
      selectModelFromDropdown_def closeModelDropdown_def)

lemma setModel_dropdown_try_returns: "returns (setModel_dropdown_try n) w"
proof (cases "getModelConfig n")
  case None
  then show ?thesis
    by (simp add: setModel_dropdown_try_def returns_def bind_io_def return_io_def
        log_calls_dropdown)
next
  case (Some c)
  let ?w0 = "w\<lparr>logged := logged w @ [(INFO, ''Setting model to'')]\<rparr>"
  obtain cur w1 where 1: "getCurrentlySelectedModel_dropdown ?w0 = (Inr cur, w1)"
    using returnsD [OF dropdown_operations_return(1), of ?w0] by blast
  obtain opened w2 where 2: "openModelDropdown w1 = (Inr opened, w2)"
    using returnsD [OF dropdown_operations_return(2), of w1] by blast
  obtain selected w3 where 3: "selectModelFromDropdown c w2 = (Inr selected, w3)"
    using returnsD [OF dropdown_operations_return(3), of c w2] by blast
  obtain closed w4 where 4: "closeModelDropdown w3 = (Inr closed, w4)"
    using returnsD [OF dropdown_operations_return(4), of w3] by blast
  show ?thesis
    by (simp add: setModel_dropdown_try_def returns_def bind_io_def return_io_def
        log_calls_dropdown Some 1 2 3 4)
qed

lemma closeModelDropdown_swallows:
  assumes "returns (page_keyboard_press ''Escape'') w"
  shows "fst (closeModelDropdown w) = Inr True \<and> logged (snd (closeModelDropdown w)) = logged w"
proof -
  obtain u w1 where 1: "page_keyboard_press ''Escape'' w = (Inr u, w1)"
    using returnsD [OF assms] by blast
  have l: "logged (snd (primitive ev act v)) = logged v"
    if "\<And>v'. logged (snd (act v')) = logged v'" for ev and act :: "unit io" and v
    by (simp add: primitive_alt next_outcome_def Let_def that split: outcome.splits list.splits)
  have "logged (snd (page_keyboard_press ''Escape'' w)) = logged w"
    unfolding page_keyboard_press_def by (rule l) simp
  with 1 have 2: "logged w1 = logged w"
    by simp
  have 3: "logged (snd (page_waitForSelector_hidden MODEL_DROPDOWN_SELECTOR 2000 w1)) = logged w1"
    unfolding page_waitForSelector_hidden_def by (rule l) (simp split: option.splits)
  show ?thesis
    using 2 3
    by (cases "page_waitForSelector_hidden MODEL_DROPDOWN_SELECTOR 2000 w1";
        cases "fst (page_waitForSelector_hidden MODEL_DROPDOWN_SELECTOR 2000 w1)")
      (simp_all add: closeModelDropdown_def closeModelDropdown_try_def try_catch_def bind_io_def
        return_io_def 1)
qed

text \<open>
  Claim C8, amended. No operation of the UI path throws, on any page. Each of them
  converts a throw of its own \<open>try\<close> block into its fallback value: \<open>false\<close>, \<open>null\<close> for
  the two \<open>getCurrentlySelectedModel\<close>, the empty list for
  \<open>getAvailableModelsFromDropdown\<close>; and into one log entry: a warning, but an error in
  \<open>openModelDropdown\<close> and \<open>selectModelFromDropdown\<close>, and nothing in
  \<open>isModelSelectionAvailable\<close> of the final version. The \<open>try\<close> block of \<open>setModel\<close>
  of the dropdown version never throws, since every operation that it calls converts its
  own errors. In \<open>closeModelDropdown\<close> the rejection of the wait is swallowed without a
  log entry: once the key is pressed the operation returns \<open>true\<close> and logs nothing.
\<close>

theorem ui_errors_are_caught:
  "converts (setModel_try n) (setModel n) False [(WARN, ''Failed to set model'')] w \<and>
   converts isModelSelectionAvailable_try isModelSelectionAvailable False
     [(WARN, ''Error checking availability:'')] w \<and>
   converts getCurrentlySelectedModel_try getCurrentlySelectedModel None
     [(WARN, ''Error getting current model:'')] w \<and>
   converts (setModelFinal_try n) (setModelFinal n) False [(WARN, ''Model selection failed:'')] w \<and>
   converts isModelSelectionAvailable_final_try isModelSelectionAvailable_final False [] w \<and>
   converts enableReasoningMode_try enableReasoningMode False
     [(WARN, ''Failed to enable reasoning mode:'')] w \<and>
   converts isReasoningToggleAvailable_try isReasoningToggleAvailable False
     [(WARN, ''Error checking reasoning toggle availability:'')] w \<and>
   converts isModelSelectionAvailable_dropdown_try isModelSelectionAvailable_dropdown False
     [(WARN, ''Error checking model selection availability:'')] w \<and>
   converts getCurrentlySelectedModel_dropdown_try getCurrentlySelectedModel_dropdown None
     [(WARN, ''Error getting currently selected model:'')] w \<and>
   converts openModelDropdown_try openModelDropdown False
     [(ERROR, ''Failed to open model dropdown:'')] w \<and>
   converts closeModelDropdown_try closeModelDropdown False
     [(WARN, ''Error closing model dropdown:'')] w \<and>
   converts (selectModelFromDropdown_try c) (selectModelFromDropdown c) False
     [(ERROR, ''Error selecting model from dropdown:'')] w \<and>
   converts getAvailableModelsFromDropdown_try getAvailableModelsFromDropdown []
     [(WARN, ''Error getting available models from dropdown:'')] w \<and>
   returns (setModel_dropdown_try n) w \<and> returns (setModel_dropdown n) w \<and>
   (returns (page_keyboard_press ''Escape'') w \<longrightarrow>
      fst (closeModelDropdown w) = Inr True \<and> logged (snd (closeModelDropdown w)) = logged w)"
proof (intro conjI impI)
  show "returns (setModel_dropdown_try n) w"
    by (rule setModel_dropdown_try_returns)
  then show "returns (setModel_dropdown n) w"
    by (cases "setModel_dropdown_try n w"; cases "fst (setModel_dropdown_try n w)")
      (simp_all add: returns_def setModel_dropdown_def try_catch_def)
  show "converts isModelSelectionAvailable_final_try isModelSelectionAvailable_final False [] w"
    unfolding isModelSelectionAvailable_final_def by (rule try_catch_converts) (rule handlers)
qed (simp_all add: closeModelDropdown_swallows,
     unfold setModel_def isModelSelectionAvailable_def getCurrentlySelectedModel_def
       setModelFinal_def enableReasoningMode_def isReasoningToggleAvailable_def
       isModelSelectionAvailable_dropdown_def getCurrentlySelectedModel_dropdown_def
       openModelDropdown_def closeModelDropdown_def selectModelFromDropdown_def
       getAvailableModelsFromDropdown_def,
     (rule try_catch_converts, rule handlers)+)

lemma failing_page_throws:
  "throws (setModel_try n) failing_page"
  "throws isModelSelectionAvailable_try failing_page"
  "throws getCurrentlySelectedModel_try failing_page"
  "throws (setModelFinal_try n) failing_page"
  "throws isModelSelectionAvailable_final_try failing_page"
  "throws enableReasoningMode_try failing_page"
  "throws isReasoningToggleAvailable_try failing_page"
  "throws isModelSelectionAvailable_dropdown_try failing_page"
  "throws getCurrentlySelectedModel_dropdown_try failing_page"
  "throws openModelDropdown_try failing_page"
  "throws closeModelDropdown_try failing_page"
  "throws (selectModelFromDropdown_try c) failing_page"
  "throws getAvailableModelsFromDropdown_try failing_page"
  by (simp_all add: throws_def failing_page_def document_root_def setModel_try_def
      setModelFinal_try_def isModelSelectionAvailable_try_def
      isModelSelectionAvailable_final_try_def getCurrentlySelectedModel_try_def
      enableReasoningMode_try_def isReasoningToggleAvailable_try_def
      isModelSelectionAvailable_dropdown_try_def getCurrentlySelectedModel_dropdown_try_def
      openModelDropdown_try_def closeModelDropdown_try_def selectModelFromDropdown_try_def
      getAvailableModelsFromDropdown_try_def getCurrentlySelectedModel_catch
      page_query_buttons_def page_waitForSelector_def page_keyboard_press_def
      io_defs log_calls log_calls_dropdown)

lemma key_pressed_page:
  "returns (page_keyboard_press ''Escape'') (throwing [Succeeds, Throws] failing_page)"
  by (simp add: returns_def throwing_def failing_page_def page_keyboard_press_def io_defs)

text \<open>The theorem at a page on which the first two primitive calls throw, and at a page
  on which the first call succeeds and the second one throws.\<close>

theorem ui_errors_are_caught_witness:
  "throws (setModel_try (js ''Gemini 3.1 Pro'')) failing_page \<and>
   fst (setModel (js ''Gemini 3.1 Pro'') failing_page) = Inr False \<and>
   throws isModelSelectionAvailable_try failing_page \<and>
   fst (isModelSelectionAvailable failing_page) = Inr False \<and>
   throws getCurrentlySelectedModel_try failing_page \<and>
   fst (getCurrentlySelectedModel failing_page) = Inr None \<and>
   throws (setModelFinal_try (js ''Gemini 3.1 Pro'')) failing_page \<and>
   fst (setModelFinal (js ''Gemini 3.1 Pro'') failing_page) = Inr False \<and>
   throws isModelSelectionAvailable_final_try failing_page \<and>
   fst (isModelSelectionAvailable_final failing_page) = Inr False \<and>
   throws enableReasoningMode_try failing_page \<and>
   fst (enableReasoningMode failing_page) = Inr False \<and>
   throws isReasoningToggleAvailable_try failing_page \<and>
   fst (isReasoningToggleAvailable failing_page) = Inr False \<and>
   throws isModelSelectionAvailable_dropdown_try failing_page \<and>
   fst (isModelSelectionAvailable_dropdown failing_page) = Inr False \<and>
   throws getCurrentlySelectedModel_dropdown_try failing_page \<and>
   fst (getCurrentlySelectedModel_dropdown failing_page) = Inr None \<and>
   throws openModelDropdown_try failing_page \<and>
   fst (openModelDropdown failing_page) = Inr False \<and>
   throws closeModelDropdown_try failing_page \<and>
   fst (closeModelDropdown failing_page) = Inr False \<and>
   throws (selectModelFromDropdown_try (AVAILABLE_MODELS ! 1)) failing_page \<and>
   fst (selectModelFromDropdown (AVAILABLE_MODELS ! 1) failing_page) = Inr False \<and>
   throws getAvailableModelsFromDropdown_try failing_page \<and>
   fst (getAvailableModelsFromDropdown failing_page) = Inr [] \<and>
   returns (page_keyboard_press ''Escape'') (throwing [Succeeds, Throws] failing_page) \<and>
   fst (closeModelDropdown (throwing [Succeeds, Throws] failing_page)) = Inr True"
  using ui_errors_are_caught [of "js ''Gemini 3.1 Pro''" failing_page "AVAILABLE_MODELS ! 1"]
    ui_errors_are_caught [of "js ''Gemini 3.1 Pro''" "throwing [Succeeds, Throws] failing_page"
      "AVAILABLE_MODELS ! 1", THEN conjunct2, THEN conjunct2, THEN conjunct2, THEN conjunct2,
      THEN conjunct2, THEN conjunct2, THEN conjunct2, THEN conjunct2, THEN conjunct2,
      THEN conjunct2, THEN conjunct2, THEN conjunct2, THEN conjunct2, THEN conjunct2,
      THEN conjunct2]
  by (simp add: converts_def failing_page_throws key_pressed_page)

lemmas regexp_eval = regexp_test_def lit_at_def canonicalize_def probe_with_More_def
  probe_with_Kimi_def

lemma two_model_page_scripts:
  "current_model_script (dom two_model_page) = Some (js ''Claude Sonnet 4.6'')"
  "current_text_script (dom two_model_page) = Some (js ''Claude Sonnet 4.6'')"
  "\<not> has_More_script (dom two_model_page)"
  "\<not> str_includes (js ''Claude Sonnet 4.6'') (js ''Gemini 3.1 Pro'')"
  "str_includes (js ''Claude Sonnet 4.6'') (js ''Claude Sonnet 4.6'')"
  "js ''Claude Sonnet 4.6'' \<noteq> js ''More''"
  "find (\<lambda>i. let text = trim (textContent (dom two_model_page ! i))
              in text \<noteq> [] \<and> str_includes text (js ''Gemini 3.1 Pro''))
     (button_indices (dom two_model_page)) = Some 3"
  by (simp_all add: two_model_page_def document_root_def current_model_script_def current_text_script_def
      has_More_script_def button_indices_def regexp_eval str_includes_def string_eval)

lemma two_model_page_world:
  "faults two_model_page = []" "react two_model_page = (\<lambda>i d. d)"
  "calls_succeed n two_model_page"
  by (simp_all add: two_model_page_def calls_succeed_def)

lemma two_model_page_start: "trace two_model_page = []" "logged two_model_page = []"
  by (simp_all add: two_model_page_def)

text \<open>
  Claim C8 as stated fails in four ways. On a page whose first primitive call throws,
  \<open>isModelSelectionAvailable\<close> of the final version returns \<open>false\<close> and logs nothing,
  \<open>openModelDropdown\<close> logs an error, not a warning, and
  \<open>getAvailableModelsFromDropdown\<close> returns the empty list, neither a boolean nor \<open>null\<close>;
  when the wait inside \<open>closeModelDropdown\<close> throws, nothing is logged. And an internal
  exception does not make \<open>setModel\<close> return \<open>false\<close>: on the page with the two model
  buttons, when the detecting call throws, \<open>getCurrentlySelectedModel\<close> converts the
  error into \<open>null\<close> and \<open>setModel\<close> goes on, clicks the target and returns \<open>true\<close>.
\<close>

theorem caught_errors_not_warned_or_false:
  "isModelSelectionAvailable_final failing_page =
     (Inr False, failing_page\<lparr>faults := [Throws], trace := [Query ''button'', Threw]\<rparr>) \<and>
   logged (snd (isModelSelectionAvailable_final failing_page)) = [] \<and>
   fst (openModelDropdown failing_page) = Inr False \<and>
   logged (snd (openModelDropdown failing_page)) =
     [(INFO, ''Opening model selection dropdown...''), (ERROR, ''Failed to open model dropdown:'')] \<and>
   fst (getAvailableModelsFromDropdown failing_page) = Inr [] \<and>
   fst (closeModelDropdown (throwing [Succeeds, Throws] failing_page)) = Inr True \<and>
   trace (snd (closeModelDropdown (throwing [Succeeds, Throws] failing_page))) =
     [KeyPress ''Escape'', WaitForHidden MODEL_DROPDOWN_SELECTOR 2000, Threw] \<and>
   logged (snd (closeModelDropdown (throwing [Succeeds, Throws] failing_page))) = [] \<and>
   fst (setModel (js ''Gemini 3.1 Pro'') (throwing [Throws] two_model_page)) = Inr True \<and>
   trace (snd (setModel (js ''Gemini 3.1 Pro'') (throwing [Throws] two_model_page))) =
     [Evaluate ''current model'', Threw, Evaluate ''has More'', Evaluate ''click model button'',
      Clicked 3, Sleep 1000] \<and>
   logged (snd (setModel (js ''Gemini 3.1 Pro'') (throwing [Throws] two_model_page))) =
     [(INFO, ''Setting model to''), (WARN, ''Error getting current model:''),
      (INFO, ''Successfully clicked model'')]"
proof -
  have 1: "isModelSelectionAvailable_final failing_page =
     (Inr False, failing_page\<lparr>faults := [Throws], trace := [Query ''button'', Threw]\<rparr>)"
    by (simp add: isModelSelectionAvailable_final_catch isModelSelectionAvailable_final_try_def
        page_query_buttons_def failing_page_def io_defs)
  have 2: "openModelDropdown failing_page =
     (Inr False, failing_page\<lparr>faults := [Throws],
        trace := [WaitForSelector MODEL_BUTTON_SELECTOR MODEL_SELECTION_TIMEOUT, Threw],
        logged := [(INFO, ''Opening model selection dropdown...''),
                   (ERROR, ''Failed to open model dropdown:'')]\<rparr>)"
    by (simp add: openModelDropdown_def openModelDropdown_try_def try_catch_def
        page_waitForSelector_def failing_page_def io_defs log_calls_dropdown)
  have 3: "fst (getAvailableModelsFromDropdown failing_page) = Inr []"
    by (simp add: getAvailableModelsFromDropdown_def getAvailableModelsFromDropdown_try_def
        try_catch_def failing_page_def io_defs log_calls_dropdown)
  have 4: "closeModelDropdown (throwing [Succeeds, Throws] failing_page) =
     (Inr True, failing_page\<lparr>faults := [],
        trace := [KeyPress ''Escape'', WaitForHidden MODEL_DROPDOWN_SELECTOR 2000, Threw]\<rparr>)"
    by (simp add: closeModelDropdown_def closeModelDropdown_try_def try_catch_def
        page_keyboard_press_def page_waitForSelector_hidden_def throwing_def failing_page_def
        io_defs)
  have 5: "setModel (js ''Gemini 3.1 Pro'') (throwing [Throws] two_model_page) =
     (Inr True, two_model_page\<lparr>faults := [],
        logged := [(INFO, ''Setting model to''), (WARN, ''Error getting current model:''),
                   (INFO, ''Successfully clicked model'')],
        trace := [Evaluate ''current model'', Threw, Evaluate ''has More'',
                  Evaluate ''click model button'', Clicked 3, Sleep 1000]\<rparr>)"
    using two_model_page_scripts two_model_page_world(1,2) two_model_page_start
    by (simp add: setModel_catch setModel_try_def getCurrentlySelectedModel_catch
        getCurrentlySelectedModel_try_def click_button_script_def throwing_def io_defs log_calls)
  have "logged failing_page = []"
    by (simp add: failing_page_def)
  then show ?thesis
    by (simp add: 1 2 3 4 5 two_model_page_start)
qed

text \<open>The theorem at a page whose toggle is on, at a page whose toggle is off, and at a
  page whose first primitive call throws.\<close>

theorem enableReasoningMode_behaviour_witness:
  "fst (enableReasoningMode (toggle_page (js ''true''))) = Inr True \<and>
   new_events (toggle_page (js ''true'')) (snd (enableReasoningMode (toggle_page (js ''true'')))) =
     [Evaluate ''aria-checked''] \<and>
   fst (enableReasoningMode (toggle_page (js ''false''))) = Inr True \<and>
   new_events (toggle_page (js ''false'')) (snd (enableReasoningMode (toggle_page (js ''false'')))) =
     [Evaluate ''aria-checked'', ClickSelector REASONING_TOGGLE_SELECTOR, Clicked 2, Sleep 500] \<and>
   fst (enableReasoningMode failing_page) = Inr False \<and>
   last (logged (snd (enableReasoningMode failing_page))) = (WARN, ''Failed to enable reasoning mode:'')"
proof -
  have 1: "calls_succeed 1 (toggle_page (js ''true'')) \<and> toggle_is_checked (toggle_page (js ''true''))"
    by (simp add: toggle_page_def document_root_def calls_succeed_def toggle_is_checked_def
        getAttribute_def)
  have 2: "calls_succeed 3 (toggle_page (js ''false'')) \<and>
      \<not> toggle_is_checked (toggle_page (js ''false'')) \<and>
      resolve (toggle_page (js ''false'')) REASONING_TOGGLE_SELECTOR (dom (toggle_page (js ''false''))) = Some 2"
    by (simp add: toggle_page_def document_root_def calls_succeed_def toggle_is_checked_def
        getAttribute_def js_def)
  have 3: "\<not> (calls_succeed 1 failing_page \<and> toggle_is_checked failing_page) \<and>
      \<not> (calls_succeed 3 failing_page \<and>
         resolve failing_page REASONING_TOGGLE_SELECTOR (dom failing_page) \<noteq> None)"
    by (simp add: failing_page_def calls_succeed_def)
  note t1 = enableReasoningMode_behaviour [of "toggle_page (js ''true'')" 2,
      THEN conjunct1, THEN mp, OF 1]
  note t2 = enableReasoningMode_behaviour [of "toggle_page (js ''false'')" 2,
      THEN conjunct2, THEN conjunct1, THEN mp, OF 2]
  note t3 = enableReasoningMode_behaviour [of failing_page 0,
      THEN conjunct2, THEN conjunct2, THEN conjunct1, THEN mp, OF 3]
  from t1 t2 t3 show ?thesis by simp
qed

section \<open>The selection engine\<close>

lemma setModel_matched:
  assumes "calls_succeed 1 w" and "current_model_script (dom w) = Some c"
    and "str_includes c label"
  shows "fst (setModel label w) = Inr True \<and>
         dom (snd (setModel label w)) = dom w \<and>
         react (snd (setModel label w)) = react w \<and>
         resolve (snd (setModel label w)) = resolve w \<and>
         faults (snd (setModel label w)) = drop 1 (faults w) \<and>
         new_events w (snd (setModel label w)) = [Evaluate ''current model'']"
proof -
  from assms(2) have "c \<noteq> []"
    by (auto simp: current_model_script_def find_Some_iff)
  with assms show ?thesis
    by (auto simp: setModel_catch setModel_try_def getCurrentlySelectedModel_catch
        getCurrentlySelectedModel_try_def io_defs0 log_calls calls_succeed_def new_events_def
        split: list.splits)
qed

lemma setModelFinal_matched:
  assumes "calls_succeed 1 w" and "current_text_script (dom w) = Some c"
    and "str_includes c label"
  shows "fst (setModelFinal label w) = Inr True \<and>
         dom (snd (setModelFinal label w)) = dom w \<and>
         react (snd (setModelFinal label w)) = react w \<and>
         resolve (snd (setModelFinal label w)) = resolve w \<and>
         faults (snd (setModelFinal label w)) = drop 1 (faults w) \<and>
         new_events w (snd (setModelFinal label w)) = [Evaluate ''current text'']"
  using assms
  by (auto simp: setModelFinal_catch setModelFinal_try_def io_defs0 log_calls calls_succeed_def
      new_events_def split: list.splits)

lemma calls_succeed_drop:
  "calls_succeed 2 w \<Longrightarrow> faults w' = drop 1 (faults w) \<Longrightarrow> calls_succeed 1 w \<and> calls_succeed 1 w'"
  by (cases "faults w") (auto simp: calls_succeed_def numeral_2_eq_2)

lemma setModelFinal_without_More:
  assumes "calls_succeed 1 w"
    and "\<not> (case current_text_script (dom w) of None \<Rightarrow> False | Some c \<Rightarrow> str_includes c label)"
    and "current_text_script (dom w) \<noteq> Some (js ''More'')"
  shows "fst (setModelFinal label w) = Inr False \<and>
         dom (snd (setModelFinal label w)) = dom w \<and>
         new_events w (snd (setModelFinal label w)) = [Evaluate ''current text'']"
  using assms
  by (auto simp: setModelFinal_catch setModelFinal_try_def io_defs0 log_calls calls_succeed_def
      new_events_def split: list.splits)

text \<open>
  Claim C6, amended. On every page whose detected active-model text already contains the
  target label (and on which the detecting call succeeds), \<open>setModel\<close> and
  \<open>setModelFinal\<close> return \<open>true\<close>, leave the document as it is and perform the detecting
  read as their only page operation: no click. Hence a second invocation with the same
  target, after a first call that matched, again performs no click and leaves the
  document unchanged. After a first call that succeeded by clicking, the same holds
  whenever the page then shows the target label in the detected control; the engine does
  not check that it does.
\<close>

theorem already_matches_is_noop:
  "(calls_succeed 1 w \<and> current_model_script (dom w) = Some c \<and> str_includes c label \<longrightarrow>
      fst (setModel label w) = Inr True \<and>
      dom (snd (setModel label w)) = dom w \<and>
      new_events w (snd (setModel label w)) = [Evaluate ''current model'']) \<and>
   (calls_succeed 1 w \<and> current_text_script (dom w) = Some c \<and> str_includes c label \<longrightarrow>
      fst (setModelFinal label w) = Inr True \<and>
      dom (snd (setModelFinal label w)) = dom w \<and>
      new_events w (snd (setModelFinal label w)) = [Evaluate ''current text'']) \<and>
   (calls_succeed 2 w \<and> current_model_script (dom w) = Some c \<and> str_includes c label \<longrightarrow>
      fst (setModel label (snd (setModel label w))) = Inr True \<and>
      dom (snd (setModel label (snd (setModel label w)))) = dom w \<and>
      new_events (snd (setModel label w)) (snd (setModel label (snd (setModel label w)))) =
        [Evaluate ''current model'']) \<and>
   (calls_succeed 2 w \<and> current_text_script (dom w) = Some c \<and> str_includes c label \<longrightarrow>
      fst (setModelFinal label (snd (setModelFinal label w))) = Inr True \<and>
      dom (snd (setModelFinal label (snd (setModelFinal label w)))) = dom w \<and>
      new_events (snd (setModelFinal label w))
        (snd (setModelFinal label (snd (setModelFinal label w)))) = [Evaluate ''current text''])"
proof (intro conjI impI)
  assume a: "calls_succeed 2 w \<and> current_model_script (dom w) = Some c \<and> str_includes c label"
  let ?w1 = "snd (setModel label w)"
  from a have 1: "calls_succeed 1 w"
    using calls_succeed_drop [of w w] by (cases "faults w") (auto simp: calls_succeed_def numeral_2_eq_2)
  note m = setModel_matched [OF 1, of c label]
  from a m calls_succeed_drop [of w ?w1] have "calls_succeed 1 ?w1" "current_model_script (dom ?w1) = Some c"
    by auto
  from setModel_matched [OF this] a m
  show "fst (setModel label ?w1) = Inr True"
    "dom (snd (setModel label ?w1)) = dom w"
    "new_events ?w1 (snd (setModel label ?w1)) = [Evaluate ''current model'']"
    by auto
next
  assume a: "calls_succeed 2 w \<and> current_text_script (dom w) = Some c \<and> str_includes c label"
  let ?w1 = "snd (setModelFinal label w)"
  from a have 1: "calls_succeed 1 w"
    by (cases "faults w") (auto simp: calls_succeed_def numeral_2_eq_2)
  note m = setModelFinal_matched [OF 1, of c label]
  from a m calls_succeed_drop [of w ?w1] have "calls_succeed 1 ?w1" "current_text_script (dom ?w1) = Some c"
    by auto
  from setModelFinal_matched [OF this] a m
  show "fst (setModelFinal label ?w1) = Inr True"
    "dom (snd (setModelFinal label ?w1)) = dom w"
    "new_events ?w1 (snd (setModelFinal label ?w1)) = [Evaluate ''current text'']"
    by auto
qed (use setModel_matched setModelFinal_matched in blast)+

lemma setModel_searches:
  assumes "calls_succeed 4 w"
    and "\<not> (case current_model_script (dom w) of None \<Rightarrow> False
            | Some c \<Rightarrow> c \<noteq> [] \<and> str_includes c label)"
    and "\<not> has_More_script (dom w)"
    and "find (\<lambda>i. let text = trim (textContent (dom w ! i))
                   in text \<noteq> [] \<and> str_includes text label)
           (button_indices (dom w)) = Some i"
  shows "fst (setModel label w) = Inr True \<and>
         dom (snd (setModel label w)) = react w i (dom w) \<and>
         react (snd (setModel label w)) = react w \<and>
         resolve (snd (setModel label w)) = resolve w \<and>
         faults (snd (setModel label w)) = drop 4 (faults w) \<and>
         new_events w (snd (setModel label w)) =
           [Evaluate ''current model'', Evaluate ''has More'', Evaluate ''click model button'',
            Clicked i, Sleep 1000]"
proof -
  note ok = calls_succeed_at [OF assms(1), of 0, simplified]
    calls_succeed_at [OF assms(1), of "Suc 0", simplified]
    calls_succeed_at [OF assms(1), of "Suc (Suc 0)", simplified]
    calls_succeed_at [OF assms(1), of "Suc (Suc (Suc 0))", simplified]
  have four: "(4::nat) = Suc (Suc (Suc (Suc 0)))"
    by simp
  show ?thesis
    using assms(2-4)
    by (simp add: setModel_catch setModel_try_def getCurrentlySelectedModel_catch
        getCurrentlySelectedModel_try_def click_button_script_def ok_defs primitive_ok ok
        log_calls new_events_def four split: option.splits)
qed


text \<open>The theorem at the page that shows \<open>Claude Sonnet 4.6\<close>, with this label as
  target.\<close>

theorem already_matches_is_noop_witness:
  "calls_succeed 2 two_model_page \<and>
   current_model_script (dom two_model_page) = Some (js ''Claude Sonnet 4.6'') \<and>
   current_text_script (dom two_model_page) = Some (js ''Claude Sonnet 4.6'') \<and>
   str_includes (js ''Claude Sonnet 4.6'') (js ''Claude Sonnet 4.6'') \<and>
   fst (setModel (js ''Claude Sonnet 4.6'') two_model_page) = Inr True \<and>
   new_events two_model_page (snd (setModel (js ''Claude Sonnet 4.6'') two_model_page)) =
     [Evaluate ''current model''] \<and>
   fst (setModelFinal (js ''Claude Sonnet 4.6'') two_model_page) = Inr True \<and>
   new_events two_model_page (snd (setModelFinal (js ''Claude Sonnet 4.6'') two_model_page)) =
     [Evaluate ''current text''] \<and>
   new_events (snd (setModel (js ''Claude Sonnet 4.6'') two_model_page))
     (snd (setModel (js ''Claude Sonnet 4.6'')
        (snd (setModel (js ''Claude Sonnet 4.6'') two_model_page)))) =
     [Evaluate ''current model''] \<and>
   new_events (snd (setModelFinal (js ''Claude Sonnet 4.6'') two_model_page))
     (snd (setModelFinal (js ''Claude Sonnet 4.6'')
        (snd (setModelFinal (js ''Claude Sonnet 4.6'') two_model_page)))) =
     [Evaluate ''current text'']"
proof -
  have h: "calls_succeed 1 two_model_page" "calls_succeed 2 two_model_page"
    "current_model_script (dom two_model_page) = Some (js ''Claude Sonnet 4.6'')"
    "current_text_script (dom two_model_page) = Some (js ''Claude Sonnet 4.6'')"
    "str_includes (js ''Claude Sonnet 4.6'') (js ''Claude Sonnet 4.6'')"
    by (simp_all add: two_model_page_world two_model_page_scripts)
  note t = already_matches_is_noop [of two_model_page "js ''Claude Sonnet 4.6''"
      "js ''Claude Sonnet 4.6''"]
  from h t [THEN conjunct1] t [THEN conjunct2, THEN conjunct1]
    t [THEN conjunct2, THEN conjunct2, THEN conjunct1]
    t [THEN conjunct2, THEN conjunct2, THEN conjunct2]
  show ?thesis by simp
qed

lemma two_model_page_first_call:
  "fst (setModel (js ''Gemini 3.1 Pro'') two_model_page) = Inr True"
  "dom (snd (setModel (js ''Gemini 3.1 Pro'') two_model_page)) = dom two_model_page"
  "react (snd (setModel (js ''Gemini 3.1 Pro'') two_model_page)) = react two_model_page"
  "faults (snd (setModel (js ''Gemini 3.1 Pro'') two_model_page)) = []"
  "new_events two_model_page (snd (setModel (js ''Gemini 3.1 Pro'') two_model_page)) =
     [Evaluate ''current model'', Evaluate ''has More'', Evaluate ''click model button'',
      Clicked 3, Sleep 1000]"
  using setModel_searches [of two_model_page "js ''Gemini 3.1 Pro''" 3]
  by (simp_all add: two_model_page_world two_model_page_scripts)

lemma More_page_scripts:
  "current_text_script (dom More_page) = Some (js ''More'')"
  "\<not> str_includes (js ''More'') (js ''Gemini 3.1 Pro'')"
  "find (\<lambda>i. trim (textContent (dom More_page ! i)) = js ''More'') (button_indices (dom More_page)) = Some 2"
  "\<not> str_includes (js ''Gemini 3.1 Pro'') (js ''Claude'')"
  "\<not> str_includes (js ''Gemini 3.1 Pro'') reasoning_ru"
  by (simp_all add: More_page_def document_root_def current_text_script_def button_indices_def regexp_eval
      str_includes_def string_eval reasoning_ru_def)

lemma More_page_search:
  "dom w = dom More_page \<Longrightarrow>
   search_all_script (js ''Gemini 3.1 Pro'') w = (True, click_element 0 w)"
  by (simp add: search_all_script_def More_page_def document_root_def closest_menuitem_def getAttribute_def
      str_includes_def string_eval Let_def)

lemma setModelFinal_expands:
  assumes "faults w = []" and "dom w = dom More_page" and "react w = (\<lambda>i d. d)"
  shows "fst (setModelFinal (js ''Gemini 3.1 Pro'') w) = Inr True \<and>
         dom (snd (setModelFinal (js ''Gemini 3.1 Pro'') w)) = dom More_page \<and>
         react (snd (setModelFinal (js ''Gemini 3.1 Pro'') w)) = react w \<and>
         faults (snd (setModelFinal (js ''Gemini 3.1 Pro'') w)) = [] \<and>
         new_events w (snd (setModelFinal (js ''Gemini 3.1 Pro'') w)) =
           [Evaluate ''current text'', Evaluate ''click More'', Clicked 2, Sleep 1500,
            Evaluate ''search all elements'', Clicked 0, Sleep 1000]"
  using assms
  by (simp add: setModelFinal_catch setModelFinal_try_def click_More_script_def ok_defs
      primitive_ok log_calls new_events_def More_page_scripts More_page_search)

lemma More_page_world:
  "faults More_page = []" "react More_page = (\<lambda>i d. d)"
  by (simp_all add: More_page_def)

lemma More_page_first_call:
  "fst (setModelFinal (js ''Gemini 3.1 Pro'') More_page) = Inr True"
  "dom (snd (setModelFinal (js ''Gemini 3.1 Pro'') More_page)) = dom More_page"
  "react (snd (setModelFinal (js ''Gemini 3.1 Pro'') More_page)) = (\<lambda>i d. d)"
  "faults (snd (setModelFinal (js ''Gemini 3.1 Pro'') More_page)) = []"
  "new_events More_page (snd (setModelFinal (js ''Gemini 3.1 Pro'') More_page)) =
     [Evaluate ''current text'', Evaluate ''click More'', Clicked 2, Sleep 1500,
      Evaluate ''search all elements'', Clicked 0, Sleep 1000]"
  using setModelFinal_expands [of More_page]
  by (simp_all add: More_page_world)

text \<open>
  Claim C6 as stated fails after a first call that succeeded: on a page that does not
  react to clicks, \<open>setModel\<close> and \<open>setModelFinal\<close> return \<open>true\<close> after clicking the
  target, and the second invocation with the same target repeats the same clicks.
\<close>

theorem second_call_clicks_again:
  "fst (setModel (js ''Gemini 3.1 Pro'') two_model_page) = Inr True \<and>
   fst (setModel (js ''Gemini 3.1 Pro'')
          (snd (setModel (js ''Gemini 3.1 Pro'') two_model_page))) = Inr True \<and>
   new_events (snd (setModel (js ''Gemini 3.1 Pro'') two_model_page))
     (snd (setModel (js ''Gemini 3.1 Pro'')
        (snd (setModel (js ''Gemini 3.1 Pro'') two_model_page)))) =
     [Evaluate ''current model'', Evaluate ''has More'', Evaluate ''click model button'',
      Clicked 3, Sleep 1000] \<and>
   fst (setModelFinal (js ''Gemini 3.1 Pro'') More_page) = Inr True \<and>
   fst (setModelFinal (js ''Gemini 3.1 Pro'')
          (snd (setModelFinal (js ''Gemini 3.1 Pro'') More_page))) = Inr True \<and>
   new_events (snd (setModelFinal (js ''Gemini 3.1 Pro'') More_page))
     (snd (setModelFinal (js ''Gemini 3.1 Pro'')
        (snd (setModelFinal (js ''Gemini 3.1 Pro'') More_page)))) =
     [Evaluate ''current text'', Evaluate ''click More'', Clicked 2, Sleep 1500,
      Evaluate ''search all elements'', Clicked 0, Sleep 1000]"
proof -
  let ?w1 = "snd (setModel (js ''Gemini 3.1 Pro'') two_model_page)"
  let ?v1 = "snd (setModelFinal (js ''Gemini 3.1 Pro'') More_page)"
  have "calls_succeed 4 ?w1"
    by (simp add: calls_succeed_def two_model_page_first_call)
  from setModel_searches [OF this, of "js ''Gemini 3.1 Pro''" 3]
  have a: "fst (setModel (js ''Gemini 3.1 Pro'') ?w1) = Inr True \<and>
      new_events ?w1 (snd (setModel (js ''Gemini 3.1 Pro'') ?w1)) =
        [Evaluate ''current model'', Evaluate ''has More'', Evaluate ''click model button'',
         Clicked 3, Sleep 1000]"
    by (simp add: two_model_page_first_call two_model_page_scripts two_model_page_world)
  from setModelFinal_expands [of ?v1]
  have b: "fst (setModelFinal (js ''Gemini 3.1 Pro'') ?v1) = Inr True \<and>
      new_events ?v1 (snd (setModelFinal (js ''Gemini 3.1 Pro'') ?v1)) =
        [Evaluate ''current text'', Evaluate ''click More'', Clicked 2, Sleep 1500,
         Evaluate ''search all elements'', Clicked 0, Sleep 1000]"
    by (simp add: More_page_first_call)
  from a b show ?thesis
    by (simp add: two_model_page_first_call More_page_first_call)
qed

text \<open>
  The order of the steps on a page whose primitive calls succeed. \<open>setModel\<close>, target
  not yet selected: Detect, the probe for \<open>More\<close>, then Expand and a settle wait when
  there is a \<open>More\<close> button, then Search, and Activate and Settle when the search finds a
  button. \<open>setModelFinal\<close>, with \<open>More\<close> as the detected control: Detect, Expand, a
  settle wait, Search, and Activate and Settle when the search finds an element.
\<close>

lemma setModel_search_fails:
  assumes "calls_succeed 3 w"
    and "\<not> (case current_model_script (dom w) of None \<Rightarrow> False
            | Some c \<Rightarrow> c \<noteq> [] \<and> str_includes c label)"
    and "\<not> has_More_script (dom w)"
    and "find (\<lambda>i. let text = trim (textContent (dom w ! i))
                   in text \<noteq> [] \<and> str_includes text label)
           (button_indices (dom w)) = None"
  shows "fst (setModel label w) = Inr False \<and>
         dom (snd (setModel label w)) = dom w \<and>
         new_events w (snd (setModel label w)) =
           [Evaluate ''current model'', Evaluate ''has More'', Evaluate ''click model button'']"
proof -
  note ok = calls_succeed_at [OF assms(1), of 0, simplified]
    calls_succeed_at [OF assms(1), of "Suc 0", simplified]
    calls_succeed_at [OF assms(1), of "Suc (Suc 0)", simplified]
  show ?thesis
    using assms(2-4)
    by (simp add: setModel_catch setModel_try_def getCurrentlySelectedModel_catch
        getCurrentlySelectedModel_try_def click_button_script_def ok_defs primitive_ok ok
        log_calls new_events_def split: option.splits)
qed

lemma setModel_expands:
  assumes "calls_succeed 6 w"
    and "\<not> (case current_model_script (dom w) of None \<Rightarrow> False
            | Some c \<Rightarrow> c \<noteq> [] \<and> str_includes c label)"
    and "has_More_script (dom w)"
    and "resolve w ''button:has-text(\"More\")'' (dom w) = Some m"
  shows "new_events w (snd (setModel label w)) =
           [Evaluate ''current model'', Evaluate ''has More'',
            ClickSelector ''button:has-text(\"More\")'', Clicked m, Sleep 1000,
            Evaluate ''click model button''] @
           (case find (\<lambda>i. let text = trim (textContent (react w m (dom w) ! i))
                           in text \<noteq> [] \<and> str_includes text label)
                   (button_indices (react w m (dom w))) of
              None \<Rightarrow> []
            | Some i \<Rightarrow> [Clicked i, Sleep 1000])"
proof -
  note ok = calls_succeed_at [OF assms(1), of 0, simplified]
    calls_succeed_at [OF assms(1), of "Suc 0", simplified]
    calls_succeed_at [OF assms(1), of "Suc (Suc 0)", simplified]
    calls_succeed_at [OF assms(1), of "Suc (Suc (Suc 0))", simplified]
    calls_succeed_at [OF assms(1), of "Suc (Suc (Suc (Suc 0)))", simplified]
    calls_succeed_at [OF assms(1), of "Suc (Suc (Suc (Suc (Suc 0))))", simplified]
  show ?thesis
    using assms(2-4)
    by (simp add: setModel_catch setModel_try_def getCurrentlySelectedModel_catch
        getCurrentlySelectedModel_try_def click_button_script_def ok_defs primitive_ok ok
        log_calls new_events_def split: option.splits)
qed

lemma More_button_exists:
  assumes "current_text_script d = Some (js ''More'')"
  shows "\<exists>m. find (\<lambda>i. trim (textContent (d ! i)) = js ''More'') (button_indices d) = Some m"
proof -
  from assms have "js ''More'' \<in> set (map (\<lambda>i. trim (textContent (d ! i))) (button_indices d))"
    unfolding current_text_script_def find_Some_iff by (metis nth_mem)
  then have "\<exists>i \<in> set (button_indices d). trim (textContent (d ! i)) = js ''More''"
    by auto
  then have "find (\<lambda>i. trim (textContent (d ! i)) = js ''More'') (button_indices d) \<noteq> None"
    unfolding find_None_iff by blast
  then show ?thesis by blast
qed

lemma setModelFinal_with_More:
  assumes "calls_succeed 5 w"
    and "current_text_script (dom w) = Some (js ''More'')"
    and "\<not> str_includes (js ''More'') label"
    and "\<not> str_includes label (js ''Claude'')" and "\<not> str_includes label reasoning_ru"
  shows "\<exists>m. find (\<lambda>i. trim (textContent (dom w ! i)) = js ''More'') (button_indices (dom w)) = Some m \<and>
           new_events w (snd (setModelFinal label w)) =
             [Evaluate ''current text'', Evaluate ''click More'', Clicked m, Sleep 1500,
              Evaluate ''search all elements''] @
             (let d = react w m (dom w) in
              case find (\<lambda>i. str_includes (trim (textContent (d ! i))) label)
                     (filter (\<lambda>i. str_includes (textContent (d ! i)) label \<and>
                                   tagName (d ! i) \<noteq> ''SCRIPT'' \<and> tagName (d ! i) \<noteq> ''STYLE'')
                        [0 ..< length d]) of
                None \<Rightarrow> []
              | Some el \<Rightarrow>
                  [Clicked (case closest_menuitem d el of None \<Rightarrow> el | Some mi \<Rightarrow> mi),
                   Sleep 1000])"
proof -
  from More_button_exists [OF assms(2)] obtain m
    where m: "find (\<lambda>i. trim (textContent (dom w ! i)) = js ''More'') (button_indices (dom w)) = Some m"
    by blast
  note ok = calls_succeed_at [OF assms(1), of 0, simplified]
    calls_succeed_at [OF assms(1), of "Suc 0", simplified]
    calls_succeed_at [OF assms(1), of "Suc (Suc 0)", simplified]
    calls_succeed_at [OF assms(1), of "Suc (Suc (Suc 0))", simplified]
    calls_succeed_at [OF assms(1), of "Suc (Suc (Suc (Suc 0)))", simplified]
  have "new_events w (snd (setModelFinal label w)) =
             [Evaluate ''current text'', Evaluate ''click More'', Clicked m, Sleep 1500,
              Evaluate ''search all elements''] @
             (let d = react w m (dom w) in
              case find (\<lambda>i. str_includes (trim (textContent (d ! i))) label)
                     (filter (\<lambda>i. str_includes (textContent (d ! i)) label \<and>
                                   tagName (d ! i) \<noteq> ''SCRIPT'' \<and> tagName (d ! i) \<noteq> ''STYLE'')
                        [0 ..< length d]) of
                None \<Rightarrow> []
              | Some el \<Rightarrow>
                  [Clicked (case closest_menuitem d el of None \<Rightarrow> el | Some mi \<Rightarrow> mi),
                   Sleep 1000])"
    using assms(2-5) m
    by (simp add: setModelFinal_catch setModelFinal_try_def click_More_script_def
        search_all_script_def ok_defs primitive_ok ok log_calls new_events_def Let_def
        split: option.splits)
  with m show ?thesis by blast
qed

text \<open>
  Claim C7. The steps are claimed to run in the order Detect, Expand (only for the
  \<open>More\<close> control), Search, Activate, Settle, with Search reached whenever the target is
  not already selected, also when there is no \<open>More\<close> control. \<open>setModel\<close> does so: on
  the page that shows \<open>Claude Sonnet 4.6\<close> it detects, probes for \<open>More\<close>, searches,
  clicks the target and settles. \<open>setModelFinal\<close> on the same page and target runs Detect
  only and returns \<open>false\<close>: its search is nested in the branch of the \<open>More\<close> control
  (on the page with \<open>More\<close> it runs Detect, Expand, settle, Search, Activate, Settle).
\<close>

theorem setModelFinal_skips_search:
  "fst (setModelFinal (js ''Gemini 3.1 Pro'') two_model_page) = Inr False \<and>
   new_events two_model_page (snd (setModelFinal (js ''Gemini 3.1 Pro'') two_model_page)) =
     [Evaluate ''current text''] \<and>
   fst (setModel (js ''Gemini 3.1 Pro'') two_model_page) = Inr True \<and>
   new_events two_model_page (snd (setModel (js ''Gemini 3.1 Pro'') two_model_page)) =
     [Evaluate ''current model'', Evaluate ''has More'', Evaluate ''click model button'',
      Clicked 3, Sleep 1000] \<and>
   new_events More_page (snd (setModelFinal (js ''Gemini 3.1 Pro'') More_page)) =
     [Evaluate ''current text'', Evaluate ''click More'', Clicked 2, Sleep 1500,
      Evaluate ''search all elements'', Clicked 0, Sleep 1000]"
  using setModelFinal_without_More [of two_model_page "js ''Gemini 3.1 Pro''"]
  by (simp add: two_model_page_first_call two_model_page_scripts two_model_page_world
      More_page_first_call)

lemma unknown_model_raises:
  "getValidatedModel (Some (js ''non-existent-model'')) lg = (Inl (ReferenceError ''logWarn''), lg)"
proof -
  have "getModelConfig (js ''non-existent-model'') = None"
    by (simp add: getModelConfig_def AVAILABLE_MODELS_def string_eval)
  then show ?thesis
    by (simp add: getValidatedModel_cases js_def)
qed

text \<open>
  Claim C2. \<open>selectModel\<close> and \<open>selectModelFinal\<close> are claimed to return
  \<open>getValidatedModel(m)\<close>, a catalog identifier, on every page and for every input. Both
  call \<open>getValidatedModel\<close> outside any \<open>try\<close>: for \<open>non-existent-model\<close> its
  \<open>ReferenceError\<close> propagates on every page, before the page is touched, and no
  identifier is returned.
\<close>

theorem selectModel_unknown_model_raises:
  "selectModel (js ''non-existent-model'') w = (Inl (ReferenceError ''logWarn''), w) \<and>
   selectModelFinal (js ''non-existent-model'') w = (Inl (ReferenceError ''logWarn''), w)"
  by (simp add: selectModel_def selectModelFinal_def validated_io_def bind_io_def
      unknown_model_raises)

lemma selectModel_returns_validated:
  assumes "getValidatedModel (Some model) (logged w) = (Inr v, lg)"
  shows "fst (selectModel model w) = Inr v \<and> fst (selectModelFinal model w) = Inr v"
proof -
  from getValidatedModel_returns [OF assms] have lg: "lg = logged w"
    by simp
  have v: "validated_io (Some model) w = (Inr v, w)"
    using assms by (simp add: validated_io_def lg)
  obtain a w1 where a: "isModelSelectionAvailable w = (Inr a, w1)"
    using caught_total(3) by blast
  obtain b w2 where b: "setModel v w1 = (Inr b, w2)"
    using caught_total(1) by blast
  obtain a' w1' where a': "isModelSelectionAvailable_final w = (Inr a', w1')"
    using caught_total(4) by blast
  obtain b' w2' where b': "setModelFinal (case getModelConfig v of None \<Rightarrow> v
        | Some c \<Rightarrow> if selectorText c \<noteq> [] then selectorText c else v) w1' = (Inr b', w2')"
    using caught_total(2) by blast
  show ?thesis
    by (simp add: selectModel_def selectModelFinal_def bind_io_def return_io_def v a b a' b'
        log_calls Let_def)
qed

end
